theory Spec2Isabelle
  imports Complex_Main
begin

section \<open>Numbers, matrices and rectangles\<close>

text \<open>
  The numbers that the state holds are modelled as real numbers, and the rounding of
  IEEE arithmetic is not represented. On real numbers \<open>Math.abs\<close> is \<open>abs\<close>. Where the
  code divides by a number that can be zero, the quotient is computed on the type
  \<open>number\<close> below, which has the infinities, NaN and the negative zero of JavaScript.

  An \<open>SVGMatrix\<close> has the six fields \<open>a\<close> .. \<open>f\<close> and stands for the affine map
  \<open>(x, y) \<mapsto> (a x + c y + e, b x + d y + f)\<close>. The fields are written \<open>mat_a\<close> ..
  \<open>mat_f\<close> here.
\<close>

record matrix =
  mat_a :: real
  mat_b :: real
  mat_c :: real
  mat_d :: real
  mat_e :: real
  mat_f :: real

text \<open>The transform \<open>matrix(1,0,0,1,0,0)\<close> that the constructor and \<open>resetTransform\<close> write.\<close>

definition identity_matrix :: matrix where
  "identity_matrix = \<lparr>mat_a = 1, mat_b = 0, mat_c = 0, mat_d = 1, mat_e = 0, mat_f = 0\<rparr>"

text \<open>\<open>m.multiply(n)\<close>: the map of \<open>n\<close> followed by the map of \<open>m\<close>.\<close>

definition matrix_multiply :: "matrix \<Rightarrow> matrix \<Rightarrow> matrix" where
  "matrix_multiply m n =
     \<lparr>mat_a = mat_a m * mat_a n + mat_c m * mat_b n,
      mat_b = mat_b m * mat_a n + mat_d m * mat_b n,
      mat_c = mat_a m * mat_c n + mat_c m * mat_d n,
      mat_d = mat_b m * mat_c n + mat_d m * mat_d n,
      mat_e = mat_a m * mat_e n + mat_c m * mat_f n + mat_e m,
      mat_f = mat_b m * mat_e n + mat_d m * mat_f n + mat_f m\<rparr>"

definition determinant :: "matrix \<Rightarrow> real" where
  "determinant m = mat_a m * mat_d m - mat_b m * mat_c m"

text \<open>\<open>m.inverse()\<close> raises an \<open>InvalidStateError\<close> when \<open>m\<close> is not invertible: \<open>None\<close> here.\<close>

definition matrix_inverse :: "matrix \<Rightarrow> matrix option" where
  "matrix_inverse m =
     (let det = determinant m in
      if det = 0 then None
      else Some \<lparr>mat_a = mat_d m / det,
                 mat_b = - mat_b m / det,
                 mat_c = - mat_c m / det,
                 mat_d = mat_a m / det,
                 mat_e = (mat_c m * mat_f m - mat_d m * mat_e m) / det,
                 mat_f = (mat_b m * mat_e m - mat_a m * mat_f m) / det\<rparr>)"

text \<open>\<open>point.matrixTransform(m)\<close>.\<close>

definition matrixTransform :: "matrix \<Rightarrow> real \<times> real \<Rightarrow> real \<times> real" where
  "matrixTransform m p =
     (mat_a m * fst p + mat_c m * snd p + mat_e m,
      mat_b m * fst p + mat_d m * snd p + mat_f m)"

text \<open>
  A JavaScript number: a real number (\<open>Finite 0\<close> is the positive zero), the negative
  zero, an infinity or NaN. A real number \<open>x\<close> that the state holds is the number
  \<open>Finite x\<close>.
\<close>

datatype number = Finite real | NegZero | PosInf | NegInf | NaN

definition sign_bit :: "number \<Rightarrow> bool" where
  "sign_bit n = (case n of Finite x \<Rightarrow> x < 0 | NegZero \<Rightarrow> True | PosInf \<Rightarrow> False
                 | NegInf \<Rightarrow> True | NaN \<Rightarrow> False)"

definition is_zero :: "number \<Rightarrow> bool" where
  "is_zero n = (n = Finite 0 \<or> n = NegZero)"

definition is_infinite :: "number \<Rightarrow> bool" where
  "is_infinite n = (n = PosInf \<or> n = NegInf)"

definition signed_zero :: "bool \<Rightarrow> number" where
  "signed_zero negative = (if negative then NegZero else Finite 0)"

definition signed_infinity :: "bool \<Rightarrow> number" where
  "signed_infinity negative = (if negative then NegInf else PosInf)"

text \<open>The value of a number that is neither infinite nor NaN.\<close>

definition real_of :: "number \<Rightarrow> real" where
  "real_of n = (case n of Finite x \<Rightarrow> x | _ \<Rightarrow> 0)"

text \<open>The operators \<open>/\<close>, \<open>+\<close> and \<open><\<close> of JavaScript.\<close>

definition js_div :: "number \<Rightarrow> number \<Rightarrow> number" where
  "js_div a b =
     (if a = NaN \<or> b = NaN then NaN
      else if is_infinite a
      then (if is_infinite b then NaN else signed_infinity (sign_bit a \<noteq> sign_bit b))
      else if is_infinite b then signed_zero (sign_bit a \<noteq> sign_bit b)
      else if is_zero b
      then (if is_zero a then NaN else signed_infinity (sign_bit a \<noteq> sign_bit b))
      else if is_zero a then signed_zero (sign_bit a \<noteq> sign_bit b)
      else Finite (real_of a / real_of b))"

definition js_add :: "number \<Rightarrow> number \<Rightarrow> number" where
  "js_add a b =
     (if a = NaN \<or> b = NaN then NaN
      else if is_infinite a then (if is_infinite b \<and> a \<noteq> b then NaN else a)
      else if is_infinite b then b
      else if a = NegZero \<and> b = NegZero then NegZero
      else Finite (real_of a + real_of b))"

definition js_less :: "number \<Rightarrow> number \<Rightarrow> bool" where
  "js_less a b =
     (if a = NaN \<or> b = NaN then False
      else if a = PosInf \<or> b = NegInf then False
      else if a = NegInf \<or> b = PosInf then True
      else real_of a < real_of b)"

text \<open>
  \<open>Math.max\<close> and \<open>Math.min\<close>: NaN when an argument is NaN, and the negative zero is
  below the positive zero.
\<close>

definition js_max :: "number \<Rightarrow> number \<Rightarrow> number" where
  "js_max a b =
     (if a = NaN \<or> b = NaN then NaN
      else if js_less a b then b
      else if js_less b a then a
      else if a = NegZero then b else a)"

definition js_min :: "number \<Rightarrow> number \<Rightarrow> number" where
  "js_min a b =
     (if a = NaN \<or> b = NaN then NaN
      else if js_less a b then a
      else if js_less b a then b
      else if b = NegZero then b else a)"

text \<open>A \<open>DOMRect\<close>, as \<open>getBoundingClientRect\<close> returns it; the code reads these six fields.\<close>

record rect =
  rect_left :: real
  rect_top :: real
  rect_right :: real
  rect_bottom :: real
  rect_width :: real
  rect_height :: real


section \<open>The state of a \<open>Workflow\<close> object\<close>

text \<open>
  The errors that can leave a method: the \<open>Error\<close> that \<open>fitToViewport\<close> throws with its
  message, the \<open>InvalidStateError\<close> of \<open>SVGMatrix.inverse\<close>, and the \<open>TypeError\<close> of
  calling or passing \<open>undefined\<close>.
\<close>

datatype error = Error string | InvalidStateError | TypeError

text \<open>
  The canvas is an external collaborator. An element of it is known to the code by its
  class list and its attributes; \<open>uid\<close> is the identity of the DOM node. The descendants
  of \<open>this.workflow\<close> are kept as a list in document order, each with its \<open>depth\<close> below
  the workflow group: 0 for a child of the group, 1 for a child of such a child. The
  descendants of an element are the elements that follow it, as long as they are deeper.
\<close>

record element =
  uid :: nat
  depth :: nat
  classes :: "string list"
  attrs :: "(string \<times> string) list"

definition contains :: "element \<Rightarrow> string \<Rightarrow> bool" where
  "contains el cls = (cls \<in> set (classes el))"

definition getAttribute :: "element \<Rightarrow> string \<Rightarrow> string option" where
  "getAttribute el name = map_of (attrs el) name"

definition classList_add :: "string list \<Rightarrow> element \<Rightarrow> element" where
  "classList_add cs el = el\<lparr>classes := classes el @ filter (\<lambda>c. c \<notin> set (classes el)) (remdups cs)\<rparr>"

definition classList_remove :: "string list \<Rightarrow> element \<Rightarrow> element" where
  "classList_remove cs el = el\<lparr>classes := filter (\<lambda>c. c \<notin> set cs) (classes el)\<rparr>"

text \<open>
  What \<open>eventHub.emit(name, data)\<close> was called with: \<open>null\<close>, an element, or a change
  record \<open>{type, data}\<close> (\<open>data\<close> is the selection, absent for moves and creations).
  Elements are given by their \<open>uid\<close>. The state keeps the calls in order; the handlers
  are the embedding application's.
\<close>

datatype payload = Null | Element nat | Change string "nat list option"

type_synonym event = "string \<times> payload"

text \<open>
  An \<open>SVGPlugin\<close> is known by which of its four optional methods it defines. A call of a
  method is recorded as the plugin's index in \<open>this.plugins\<close> and the method's name.
\<close>

record plugin =
  registerWorkflowModel :: bool
  registerOnBeforeChange :: bool
  registerOnAfterChange :: bool
  afterRender :: bool

text \<open>
  \<open>this.dragBoundaryInterval\<close>. Its fields \<open>x\<close> and \<open>y\<close> are \<open>dbi_x\<close> and \<open>dbi_y\<close>;
  \<open>interval\<close> is \<open>null\<close> or the handle \<open>setInterval\<close> returned (never zero, so the test
  \<open>if (interval)\<close> is the test against \<open>null\<close>); \<open>highlightedPort\<close> is \<open>undefined\<close> or
  a port element, held by its \<open>uid\<close>.
\<close>

record boundaryInterval =
  dbi_x :: bool
  dbi_y :: bool
  interval :: "nat option"
  xOffset :: real
  yOffset :: real
  highlightedPort :: "nat option"

definition dragBoundaryInterval_default :: boundaryInterval where
  "dragBoundaryInterval_default =
     \<lparr>dbi_x = False, dbi_y = False, interval = None, xOffset = 0, yOffset = 0,
      highlightedPort = None\<rparr>"

record labelMatrix =
  label_a :: number
  label_d :: number

text \<open>
  The fields of the class, then what the code reads and writes of the document:
  \<open>matrix\<close> is \<open>this.workflow.transform.baseVal.getItem(0).matrix\<close>, \<open>labels\<close> the
  matrices of the \<open>.node .label\<close> elements (of each its entries \<open>a\<close> and \<open>d\<close>, the
  two that the class writes), \<open>elements\<close> the descendants of
  \<open>this.workflow\<close>, \<open>workflowClass\<close> its own class list, \<open>svgRootCTM\<close> the screen
  transformation of the root \<open>svg\<close> element and \<open>svgRootRect\<close> its bounding rectangle.
  \<open>timers\<close> are the handles of the running intervals and \<open>lastTimer\<close> the last handle
  given out. \<open>emitted\<close>, \<open>pluginCalls\<close> and \<open>modelListeners\<close> record the calls made on
  the event hub, on the plugins and on \<open>model.on\<close>.
\<close>

record 'm workflow =
  scale :: real
  isDragging :: bool
  plugins :: "plugin list"
  dragBoundary :: real
  dragBoundaryTranslation :: real
  dragBoundaryInterval :: boundaryInterval
  workflowBoundingClientRect :: rect
  model :: 'm
  matrix :: matrix
  labels :: "labelMatrix list"
  elements :: "element list"
  workflowClass :: "string list"
  svgRootCTM :: matrix
  svgRootRect :: rect
  timers :: "nat list"
  lastTimer :: nat
  emitted :: "event list"
  pluginCalls :: "(nat \<times> string) list"
  modelListeners :: "string list"

text \<open>A method returns the new state, or the error thrown together with the state it left.\<close>

type_synonym 'm outcome = "(error \<times> 'm workflow) + 'm workflow"

definition minScale :: real where
  "minScale = 0.2"

definition maxScale :: real where
  "maxScale = 2"

definition emit :: "string \<Rightarrow> payload \<Rightarrow> 'm workflow \<Rightarrow> 'm workflow" where
  "emit name data st = st\<lparr>emitted := emitted st @ [(name, data)]\<rparr>"

section \<open>Viewport\<close>

text \<open>
  \<open>this.workflow.getScreenCTM()\<close>: the transformation of the root element followed, on
  the inside, by the transform of the workflow group.
\<close>

definition getScreenCTM :: "'m workflow \<Rightarrow> matrix" where
  "getScreenCTM st = matrix_multiply (svgRootCTM st) (matrix st)"

definition transformScreenCTMtoCanvas :: "'m workflow \<Rightarrow> real \<Rightarrow> real \<Rightarrow> error + real \<times> real" where
  "transformScreenCTMtoCanvas st x y =
     (case matrix_inverse (getScreenCTM st) of
        None \<Rightarrow> Inl InvalidStateError
      | Some ctm_inverse \<Rightarrow> Inr (matrixTransform ctm_inverse (x, y)))"

text \<open>
  \<open>scaleWorkflow(scaleCoefficient = 1, ev?)\<close>: an omitted argument is \<open>None\<close>; \<open>ev\<close> is
  \<open>(clientX, clientY)\<close>. The scale is written before the inverse is taken, so it stays
  written when the inverse throws. The scale of the labels is infinite for the factor 0.
\<close>

definition scaleWorkflow :: "real option \<Rightarrow> (real \<times> real) option \<Rightarrow> 'm workflow \<Rightarrow> 'm outcome" where
  "scaleWorkflow scaleCoefficient ev st =
     (let k = (case scaleCoefficient of None \<Rightarrow> 1 | Some v \<Rightarrow> v);
          st1 = st\<lparr>scale := k\<rparr>;
          m = matrix st1
      in case transformScreenCTMtoCanvas st1
                (case ev of None \<Rightarrow> 0 | Some c \<Rightarrow> fst c)
                (case ev of None \<Rightarrow> 0 | Some c \<Rightarrow> snd c) of
           Inl err \<Rightarrow> Inl (err, st1)
         | Inr coords \<Rightarrow>
             let m1 = m\<lparr>mat_e := mat_e m + mat_a m * fst coords\<rparr>;
                 m2 = m1\<lparr>mat_f := mat_f m1 + mat_a m1 * snd coords\<rparr>;
                 m3 = m2\<lparr>mat_a := k, mat_d := k\<rparr>;
                 m4 = m3\<lparr>mat_e := mat_e m3 - k * fst coords\<rparr>;
                 m5 = m4\<lparr>mat_f := mat_f m4 - k * snd coords\<rparr>;
                 labelScale = js_add (Finite 1) (js_div (Finite (1 - k)) (Finite (k * 2)))
             in Inr (st1\<lparr>matrix := m5,
                          labels := map (\<lambda>l. l\<lparr>label_a := labelScale, label_d := labelScale\<rparr>)
                                        (labels st1)\<rparr>))"

text \<open>
  The \<open>mousewheel\<close> listener of the constructor, on an event with \<open>deltaY\<close> at
  \<open>(clientX, clientY)\<close>.
\<close>

definition onMousewheel :: "real \<Rightarrow> real \<times> real \<Rightarrow> 'm workflow \<Rightarrow> 'm outcome" where
  "onMousewheel deltaY ev st =
     (if isDragging st then Inr st
      else let s = scale st + deltaY / 500
           in if s \<le> minScale \<or> s \<ge> maxScale then Inr st
              else scaleWorkflow (Some s) (Some ev) st)"

definition scaleWorkflowCenter :: "real option \<Rightarrow> 'm workflow \<Rightarrow> 'm outcome" where
  "scaleWorkflowCenter scaleCoefficient st =
     (let st1 = st\<lparr>workflowBoundingClientRect := svgRootRect st\<rparr>;
          r = workflowBoundingClientRect st1
      in scaleWorkflow (Some (case scaleCoefficient of None \<Rightarrow> 1 | Some v \<Rightarrow> v))
           (Some ((rect_right r + rect_left r) / 2, (rect_top r + rect_bottom r) / 2)) st1)"

definition noVisibleViewport :: string where
  "noVisibleViewport = ''Cannot fit workflow to the area that has no visible viewport.''"

text \<open>
  What \<open>fitToViewport\<close> leaves: it returns, or it throws, or the new scale that it
  computes is not a real number (NaN, negative infinity or the negative zero). In the
  last case the code goes on to write that number into \<open>this.scale\<close> and into the matrix,
  which the state, over the reals, cannot hold: the outcome gives the number and the state
  before it is written.
\<close>

datatype 'm fitted =
  Returned "'m workflow" | Thrown error "'m workflow" | ScaleNotReal number "'m workflow"

text \<open>The value of \<open>this.scale\<close> after \<open>fitToViewport\<close>.\<close>

definition scale_left :: "'m fitted \<Rightarrow> number" where
  "scale_left r =
     (case r of Returned st \<Rightarrow> Finite (scale st) | Thrown err st \<Rightarrow> Finite (scale st)
      | ScaleNotReal n st \<Rightarrow> n)"

text \<open>
  \<open>fitToViewport\<close>. \<open>getBoundingClientRect\<close> gives the bounding rectangle that the
  browser computes for the workflow group under a given transform of it. The two
  quotients, their maximum, the quotient of the scale by it and the minimum with 1 are
  computed on \<open>number\<close>: a divisor can be zero.
\<close>

definition fitToViewport :: "(matrix \<Rightarrow> rect) \<Rightarrow> 'm workflow \<Rightarrow> 'm fitted" where
  "fitToViewport getBoundingClientRect st =
     (case scaleWorkflow (Some 1) None st of
        Inl err \<Rightarrow> Thrown (fst err) (snd err)
      | Inr st1 \<Rightarrow>
          let st2 = st1\<lparr>matrix := (matrix st1)\<lparr>mat_e := 0, mat_f := 0\<rparr>\<rparr>;
              clientBounds = svgRootRect st2;
              wfBounds = getBoundingClientRect (matrix st2);
              padding = 100
          in if rect_width clientBounds = 0 \<or> rect_height clientBounds = 0
             then Thrown (Error noVisibleViewport) st2
             else
               let verticalScale = js_div (Finite (rect_height wfBounds))
                                     (Finite (rect_height clientBounds - padding));
                   horizontalScale = js_div (Finite (rect_width wfBounds))
                                       (Finite (rect_width clientBounds - padding));
                   scaleFactor = js_max verticalScale horizontalScale;
                   newScale = js_min (js_div (Finite (scale st2)) scaleFactor) (Finite 1)
               in (case newScale of
                     Finite k \<Rightarrow>
                       (case scaleWorkflow (Some k) None st2 of
                          Inl err \<Rightarrow> Thrown (fst err) (snd err)
                        | Inr st3 \<Rightarrow>
                            let scaledWFBounds = getBoundingClientRect (matrix st3);
                                moveY = rect_top clientBounds - rect_top scaledWFBounds
                                        + abs (rect_height clientBounds - rect_height scaledWFBounds) / 2;
                                moveX = rect_left clientBounds - rect_left scaledWFBounds
                                        + abs (rect_width clientBounds - rect_width scaledWFBounds) / 2;
                                m = matrix st3;
                                m1 = m\<lparr>mat_e := mat_e m + moveX\<rparr>;
                                m2 = m1\<lparr>mat_f := mat_f m1 + moveY\<rparr>
                            in Returned (st3\<lparr>matrix := m2\<rparr>))
                   | n \<Rightarrow> ScaleNotReal n st2))"

text \<open>\<open>resetTransform\<close>: the transform attribute is rewritten, then \<open>scaleWorkflow()\<close>.\<close>

definition resetTransform :: "'m workflow \<Rightarrow> 'm outcome" where
  "resetTransform st = scaleWorkflow None None (st\<lparr>matrix := identity_matrix\<rparr>)"


text \<open>
  The map from canvas space to the screen that the browser applies to the content of the
  workflow group: the matrix that \<open>transformScreenCTMtoCanvas\<close> inverts.
\<close>

definition toScreen :: "'m workflow \<Rightarrow> real \<times> real \<Rightarrow> real \<times> real" where
  "toScreen st p = matrixTransform (getScreenCTM st) p"

text \<open>
  A pan and scale state: the transform of the workflow group is \<open>matrix(s,0,0,s,e,f)\<close>
  with \<open>s\<close> the current scale, not zero, and the root element's transformation is
  invertible.
\<close>

definition panScaleState :: "'m workflow \<Rightarrow> bool" where
  "panScaleState st =
     (mat_a (matrix st) = scale st \<and> mat_d (matrix st) = scale st \<and>
      mat_b (matrix st) = 0 \<and> mat_c (matrix st) = 0 \<and> scale st \<noteq> 0 \<and>
      determinant (svgRootCTM st) \<noteq> 0)"


section \<open>Connection paths\<close>

text \<open>
  The argument \<open>forceDirection\<close> of \<open>makeConnectionPath\<close>: left out (or \<open>undefined\<close>),
  \<open>null\<close>, or a string. The parameter has the default value \<open>"right"\<close>, which JavaScript
  takes when the argument is left out.
\<close>

datatype forceDirection = Omitted | NullValue | Str string

text \<open>
  The path \<open>M x1 y1 C c1x c1y c2x c2y x2 y2\<close> that the template string spells out, by
  its four points.
\<close>

record path =
  start :: "real \<times> real"
  control1 :: "real \<times> real"
  control2 :: "real \<times> real"
  finish :: "real \<times> real"

definition falsy :: "forceDirection \<Rightarrow> bool" where
  "falsy v = (case v of Omitted \<Rightarrow> True | NullValue \<Rightarrow> True | Str s \<Rightarrow> s = [])"

text \<open>The function returns \<open>undefined\<close> (\<open>None\<close>) for a string other than the two directions.\<close>

definition makeConnectionPath ::
    "real \<Rightarrow> real \<Rightarrow> real \<Rightarrow> real \<Rightarrow> forceDirection \<Rightarrow> path option" where
  "makeConnectionPath x1 y1 x2 y2 arg =
     (let forceDirection = (case arg of Omitted \<Rightarrow> Str ''right'' | v \<Rightarrow> v)
      in if falsy forceDirection
         then Some \<lparr>start = (x1, y1), control1 = ((x1 + x2) / 2, y1),
                     control2 = ((x1 + x2) / 2, y2), finish = (x2, y2)\<rparr>
         else if forceDirection = Str ''right''
         then let outDir = x1 + abs (x1 - x2) / 2;
                  inDir = x2 - abs (x1 - x2) / 2
              in Some \<lparr>start = (x1, y1), control1 = (outDir, y1),
                        control2 = (inDir, y2), finish = (x2, y2)\<rparr>
         else if forceDirection = Str ''left''
         then let outDir = x1 - abs (x1 - x2) / 2;
                  inDir = x2 + abs (x1 - x2) / 2
              in Some \<lparr>start = (x1, y1), control1 = (outDir, y1),
                        control2 = (inDir, y2), finish = (x2, y2)\<rparr>
         else None)"

section \<open>Drag boundary\<close>

text \<open>
  The loop at the start of \<open>setDragBoundaryIntervalIfNecessary\<close>, on the rectangle in
  \<open>this.workflowBoundingClientRect\<close> and the current \<open>this.dragBoundary\<close>. It returns
  the boundary it leaves; \<open>None\<close> is a loop that never ends.
\<close>

partial_function (option) resizeDragBoundary :: "rect \<Rightarrow> real \<Rightarrow> real option" where
  "resizeDragBoundary r boundary =
     (if rect_right r - boundary \<le> rect_left r + boundary \<or>
         rect_right r \<le> rect_left r + (boundary * 4)
      then resizeDragBoundary r (boundary / 2)
      else Some boundary)"

definition clearInterval :: "nat option \<Rightarrow> 'm workflow \<Rightarrow> 'm workflow" where
  "clearInterval h st =
     (case h of None \<Rightarrow> st | Some n \<Rightarrow> st\<lparr>timers := removeAll n (timers st)\<rparr>)"

text \<open>\<open>setInterval\<close> starts a timer and gives out a new handle.\<close>

definition setInterval :: "'m workflow \<Rightarrow> nat \<times> 'm workflow" where
  "setInterval st =
     (let h = Suc (lastTimer st) in (h, st\<lparr>timers := h # timers st, lastTimer := h\<rparr>))"

text \<open>
  \<open>setDragBoundaryIntervalIfNecessary\<close> up to the start of the timer. \<open>boundary\<close> is the
  pair \<open>(x, y)\<close> of \<open>-1\<close>, \<open>0\<close> or \<open>1\<close>; \<open>ghostIO\<close> is absent or gives its field
  \<open>highlightedPort\<close>. The function that the timer runs is not part of this model. The
  field \<open>workflowBoundingClientRect\<close> is taken to have been assigned.
\<close>

definition setDragBoundaryIntervalIfNecessary ::
    "int \<times> int \<Rightarrow> nat option option \<Rightarrow> 'm workflow \<Rightarrow> 'm workflow option" where
  "setDragBoundaryIntervalIfNecessary boundary ghostIO st =
     (case resizeDragBoundary (workflowBoundingClientRect st) (dragBoundary st) of
        None \<Rightarrow> None
      | Some b \<Rightarrow>
          let st1 = st\<lparr>dragBoundary := b\<rparr>;
              hitX = (fst boundary \<noteq> 0);
              hitY = (snd boundary \<noteq> 0);
              dbi = dragBoundaryInterval st1
          in if hitX \<or> hitY
             then if (\<not> dbi_x dbi \<and> hitX) \<or> (\<not> dbi_y dbi \<and> hitY) \<or>
                     (dbi_x dbi \<and> dbi_y dbi \<and> \<not> (hitX \<and> hitY))
                  then let dbi1 = dbi\<lparr>dbi_x := hitX, dbi_y := hitY\<rparr>;
                           dbi2 = (case ghostIO of None \<Rightarrow> dbi1
                                   | Some port \<Rightarrow> dbi1\<lparr>highlightedPort := port\<rparr>);
                           st2 = clearInterval (interval dbi2) st1;
                           started = setInterval st2
                       in Some ((snd started)\<lparr>dragBoundaryInterval :=
                                   dbi2\<lparr>interval := Some (fst started)\<rparr>\<rparr>)
                  else Some st1
             else Some st1)"

text \<open>\<open>getBoundaryZonesXYAxes\<close> returns the pair of axis values with the new state.\<close>

definition getBoundaryZonesXYAxes ::
    "real \<Rightarrow> real \<Rightarrow> 'm workflow \<Rightarrow> (int \<times> int) \<times> 'm workflow" where
  "getBoundaryZonesXYAxes x y st =
     (let r = workflowBoundingClientRect st;
          isLeftBoundary = (x < rect_left r + dragBoundary st);
          isRightBoundary = (x > rect_right r - dragBoundary st);
          isTopBoundary = (y < rect_top r + dragBoundary st);
          isBottomBoundary = (y > rect_bottom r - dragBoundary st);
          st1 = (if \<not> isLeftBoundary \<and> \<not> isRightBoundary \<and>
                    \<not> isTopBoundary \<and> \<not> isBottomBoundary
                 then if interval (dragBoundaryInterval st) \<noteq> None
                      then let st2 = clearInterval (interval (dragBoundaryInterval st)) st
                           in st2\<lparr>dragBoundaryInterval :=
                                   (dragBoundaryInterval st2)\<lparr>dbi_x := False, dbi_y := False,
                                      interval := None, highlightedPort := None\<rparr>\<rparr>
                      else st
                 else st)
      in ((if isLeftBoundary then - 1 else if isRightBoundary then 1 else 0,
           if isTopBoundary then - 1 else if isBottomBoundary then 1 else 0), st1))"

text \<open>
  The cursor at \<open>(x, y)\<close> is in the interior when none of the four tests of
  \<open>getBoundaryZonesXYAxes\<close> holds.
\<close>

definition inInterior :: "real \<Rightarrow> real \<Rightarrow> 'm workflow \<Rightarrow> bool" where
  "inInterior x y st =
     (let r = workflowBoundingClientRect st
      in \<not> x < rect_left r + dragBoundary st \<and> \<not> x > rect_right r - dragBoundary st \<and>
         \<not> y < rect_top r + dragBoundary st \<and> \<not> y > rect_bottom r - dragBoundary st)"

definition setDragBoundaryIntervalToDefault :: "'m workflow \<Rightarrow> 'm workflow" where
  "setDragBoundaryIntervalToDefault st =
     (let st1 = (if interval (dragBoundaryInterval st) \<noteq> None
                 then let st2 = clearInterval (interval (dragBoundaryInterval st)) st
                      in st2\<lparr>dragBoundaryInterval :=
                              (dragBoundaryInterval st2)\<lparr>dbi_x := False, dbi_y := False,
                                 interval := None, highlightedPort := None\<rparr>\<rparr>
                 else st)
      in st1\<lparr>dragBoundaryInterval := (dragBoundaryInterval st1)\<lparr>xOffset := 0, yOffset := 0\<rparr>\<rparr>)"

text \<open>
  What the assignments of the class keep true of \<open>this.dragBoundaryInterval\<close>: the axis
  flags and the highlighted port are set only while a timer is registered.
\<close>

definition intervalConsistent :: "boundaryInterval \<Rightarrow> bool" where
  "intervalConsistent dbi =
     (interval dbi \<noteq> None \<or> (\<not> dbi_x dbi \<and> \<not> dbi_y dbi \<and> highlightedPort dbi = None))"


section \<open>Snap target\<close>

text \<open>
  A reference to a node of the document, with the chain of its parents: an element and
  its \<open>parentNode\<close>, or the document itself, which has no \<open>classList\<close> and no parent.
  The class lists that the code changes are those of \<open>elements\<close>, found by \<open>uid\<close>.
\<close>

datatype domNode = Document | Node element "domNode option"

fun findParentNode :: "domNode option \<Rightarrow> error + domNode option" where
  "findParentNode None = Inr None"
| "findParentNode (Some Document) = Inl TypeError"
| "findParentNode (Some (Node el parent)) =
     (if contains el ''node'' then Inr (Some (Node el parent)) else findParentNode parent)"

definition node_uid :: "domNode \<Rightarrow> nat option" where
  "node_uid n = (case n of Document \<Rightarrow> None | Node el parent \<Rightarrow> Some (uid el))"

definition update_element :: "nat option \<Rightarrow> (element \<Rightarrow> element) \<Rightarrow> 'm workflow \<Rightarrow> 'm workflow" where
  "update_element u g st =
     st\<lparr>elements := map (\<lambda>el. if Some (uid el) = u then g el else el) (elements st)\<rparr>"

text \<open>
  The element with identity \<open>u\<close> together with its descendants, and the list without
  them. An element that becomes a child of the workflow group gets the depth 0, and its
  descendants keep their depth below it.
\<close>

definition subtree :: "nat \<Rightarrow> element list \<Rightarrow> element list" where
  "subtree u els =
     (case dropWhile (\<lambda>el. uid el \<noteq> u) els of
        [] \<Rightarrow> []
      | x # rest \<Rightarrow>
          map (\<lambda>el. el\<lparr>depth := depth el - depth x\<rparr>)
              (x # takeWhile (\<lambda>el. depth x < depth el) rest))"

definition without_subtree :: "nat \<Rightarrow> element list \<Rightarrow> element list" where
  "without_subtree u els =
     takeWhile (\<lambda>el. uid el \<noteq> u) els
     @ (case dropWhile (\<lambda>el. uid el \<noteq> u) els of
          [] \<Rightarrow> []
        | x # rest \<Rightarrow> dropWhile (\<lambda>el. depth x < depth el) rest)"

text \<open>
  \<open>this.workflow.appendChild(n)\<close> moves the element, with its descendants, to the end of
  the children of the workflow group. The elements that the code appends are in the
  document.
\<close>

definition appendChild :: "nat option \<Rightarrow> 'm workflow \<Rightarrow> 'm workflow" where
  "appendChild u st =
     (case u of
        None \<Rightarrow> st
      | Some n \<Rightarrow> st\<lparr>elements := without_subtree n (elements st) @ subtree n (elements st)\<rparr>)"

text \<open>
  \<open>setHighlightedPort\<close>. A JavaScript \<open>Map\<close> keeps its keys in insertion order:
  \<open>sortedMap\<close> is the list of its entries, \<open>get\<close> is \<open>map_of\<close>. The result is the
  highlighted port, or \<open>undefined\<close>.
\<close>

definition setHighlightedPort ::
    "(domNode \<times> real) list \<Rightarrow> string \<Rightarrow> 'm workflow
       \<Rightarrow> (error \<times> 'm workflow) + (domNode option \<times> 'm workflow)" where
  "setHighlightedPort sortedMap edgeDirection st =
     (let portElements = map fst sortedMap
      in if portElements \<noteq> [] \<and>
            (case map_of sortedMap (hd portElements) of None \<Rightarrow> False | Some distance \<Rightarrow> distance < 100)
         then let highlightedPort = hd portElements;
                  st1 = update_element (node_uid highlightedPort)
                          (classList_add [''highlighted'', ''preferred-port'']) st
              in (case findParentNode (Some highlightedPort) of
                    Inl err \<Rightarrow> Inl (err, st1)
                  | Inr None \<Rightarrow> Inl (TypeError, st1)
                  | Inr (Some parentNode) \<Rightarrow>
                      let st2 = appendChild (node_uid parentNode) st1;
                          st3 = update_element (node_uid parentNode)
                                  (classList_add [''highlighted'', ''preferred-node'', edgeDirection]) st2
                      in Inr (Some highlightedPort, st3))
         else Inr (None, st))"

section \<open>Model positions\<close>

text \<open>
  The object whose position is set: \<open>customProps\<close> is absent or a dictionary.
\<close>

record modelObject =
  customProps :: "(string \<rightharpoonup> real) option"

text \<open>
  \<open>setModelPosition(obj, x, y, emitEvents = true)\<close> returns the object as it leaves it,
  with the new state.
\<close>

definition setModelPosition ::
    "modelObject \<Rightarrow> real \<Rightarrow> real \<Rightarrow> bool option \<Rightarrow> 'm workflow \<Rightarrow> modelObject \<times> 'm workflow" where
  "setModelPosition obj x y arg st =
     (let emitEvents = (case arg of None \<Rightarrow> True | Some v \<Rightarrow> v);
          update = [''sbg:x'' \<mapsto> x, ''sbg:y'' \<mapsto> y];
          changeEventData = Change ''move'' None;
          st1 = (if emitEvents then emit ''beforeChange'' changeEventData st else st)
      in case customProps obj of
           None \<Rightarrow> (obj\<lparr>customProps := Some update\<rparr>, st1)
         | Some props \<Rightarrow>
             (obj\<lparr>customProps := Some (props ++ update)\<rparr>,
              if emitEvents then emit ''afterChange'' changeEventData st1 else st1))"

section \<open>Plugins\<close>

definition call_plugin :: "nat \<Rightarrow> string \<Rightarrow> 'm workflow \<Rightarrow> 'm workflow" where
  "call_plugin i name st = st\<lparr>pluginCalls := pluginCalls st @ [(i, name)]\<rparr>"

text \<open>\<open>typeof plugin[methodName] === "function"\<close>.\<close>

definition is_function :: "plugin \<Rightarrow> string \<Rightarrow> bool" where
  "is_function p methodName =
     (if methodName = ''registerWorkflowModel'' then registerWorkflowModel p
      else if methodName = ''registerOnBeforeChange'' then registerOnBeforeChange p
      else if methodName = ''registerOnAfterChange'' then registerOnAfterChange p
      else if methodName = ''afterRender'' then afterRender p
      else False)"

text \<open>
  The body of the \<open>forEach\<close> of \<open>hookPlugins\<close>, for the plugin at index \<open>i\<close>: three calls,
  none of them guarded. Calling a method that the plugin does not define is a
  \<open>TypeError\<close>.
\<close>

definition hookPlugin :: "nat \<Rightarrow> plugin \<Rightarrow> 'm workflow \<Rightarrow> 'm outcome" where
  "hookPlugin i p st =
     (if \<not> registerWorkflowModel p then Inl (TypeError, st)
      else let st1 = call_plugin i ''registerWorkflowModel'' st
           in if \<not> registerOnBeforeChange p then Inl (TypeError, st1)
              else let st2 = call_plugin i ''registerOnBeforeChange'' st1
                   in if \<not> registerOnAfterChange p then Inl (TypeError, st2)
                      else Inr (call_plugin i ''registerOnAfterChange'' st2))"

fun hookPlugins_from :: "nat \<Rightarrow> plugin list \<Rightarrow> 'm workflow \<Rightarrow> 'm outcome" where
  "hookPlugins_from i [] st = Inr st"
| "hookPlugins_from i (p # ps) st =
     (case hookPlugin i p st of
        Inl err \<Rightarrow> Inl err
      | Inr st1 \<Rightarrow> hookPlugins_from (Suc i) ps st1)"

definition hookPlugins :: "'m workflow \<Rightarrow> 'm outcome" where
  "hookPlugins st = hookPlugins_from 0 (plugins st) st"

fun invokePlugins_from :: "nat \<Rightarrow> plugin list \<Rightarrow> string \<Rightarrow> 'm workflow \<Rightarrow> 'm workflow" where
  "invokePlugins_from i [] methodName st = st"
| "invokePlugins_from i (p # ps) methodName st =
     invokePlugins_from (Suc i) ps methodName
       (if is_function p methodName then call_plugin i methodName st else st)"

definition invokePlugins :: "string \<Rightarrow> 'm workflow \<Rightarrow> 'm workflow" where
  "invokePlugins methodName st = invokePlugins_from 0 (plugins st) methodName st"

text \<open>A plugin that defines the three methods that \<open>hookPlugins\<close> calls.\<close>

definition complete_plugin :: "plugin \<Rightarrow> bool" where
  "complete_plugin p =
     (registerWorkflowModel p \<and> registerOnBeforeChange p \<and> registerOnAfterChange p)"


section \<open>Selection and deletion\<close>

text \<open>
  The workflow model, \<open>GraphNode\<close>, \<open>GraphEdge\<close> and \<open>TemplateParser\<close> are collaborators
  whose code is not part of this class. Of the model of type \<open>'m\<close> the class calls the
  four removals; \<open>render\<close> and \<open>renderLabels\<close> are the elements and the label matrices
  that the templates of a model parse to, edges first and nodes after them, and
  \<open>arrangeNecessary\<close> tells whether a visible node of the model lacks a numeric
  \<open>sbg:x\<close> or \<open>sbg:y\<close>.
\<close>

record 'm collaborators =
  removeStep :: "string option \<Rightarrow> 'm \<Rightarrow> 'm"
  removeInput :: "string option \<Rightarrow> 'm \<Rightarrow> 'm"
  removeOutput :: "string option \<Rightarrow> 'm \<Rightarrow> 'm"
  disconnect :: "string option \<Rightarrow> string option \<Rightarrow> 'm \<Rightarrow> 'm"
  render :: "'m \<Rightarrow> element list"
  renderLabels :: "'m \<Rightarrow> labelMatrix list"
  arrangeNecessary :: "'m \<Rightarrow> bool"

text \<open>A value spliced into a template string: \<open>null\<close> reads \<open>null\<close>.\<close>

definition template_string :: "string option \<Rightarrow> string" where
  "template_string v = (case v of None \<Rightarrow> ''null'' | Some str \<Rightarrow> str)"

definition deselectEverything :: "'m workflow \<Rightarrow> 'm workflow" where
  "deselectEverything st =
     (let st1 = st\<lparr>elements := map (\<lambda>el. if contains el ''highlighted''
                                          then classList_remove [''highlighted''] el else el)
                                    (elements st)\<rparr>;
          st2 = st1\<lparr>workflowClass := filter (\<lambda>c. c \<noteq> ''has-selection'') (workflowClass st1)\<rparr>;
          st3 = (case find (\<lambda>el. contains el ''selected'') (elements st2) of
                   None \<Rightarrow> st2
                 | Some selected \<Rightarrow>
                     update_element (Some (uid selected)) (classList_remove [''selected'']) st2)
      in emit ''selectionChange'' Null st3)"

text \<open>
  \<open>this.workflow.insertBefore(n, ref)\<close> moves the element, with its descendants, in
  front of \<open>ref\<close>, to the end when \<open>ref\<close> is \<open>undefined\<close>, and nowhere when \<open>ref\<close> is the
  element itself. The reference that the code passes is the first \<open>.node\<close> element,
  taken to be a child of the workflow group, as \<open>renderModel\<close> makes every node.
\<close>

definition insertBefore :: "nat \<Rightarrow> nat option \<Rightarrow> 'm workflow \<Rightarrow> 'm workflow" where
  "insertBefore u ref st =
     (let moved = subtree u (elements st);
          others = without_subtree u (elements st)
      in case ref of
           None \<Rightarrow> st\<lparr>elements := others @ moved\<rparr>
         | Some r \<Rightarrow>
             if r = u then st
             else st\<lparr>elements := takeWhile (\<lambda>el. uid el \<noteq> r) others @ moved
                                    @ dropWhile (\<lambda>el. uid el \<noteq> r) others\<rparr>)"

text \<open>The body of the \<open>forEach\<close> over the edges of the selected node.\<close>

definition highlightAdjacent :: "nat option \<Rightarrow> element \<Rightarrow> 'm workflow \<Rightarrow> 'm workflow" where
  "highlightAdjacent firstNode edge st =
     (let st1 = update_element (Some (uid edge)) (classList_add [''highlighted'']) st;
          sourceNodeID = template_string (getAttribute edge ''data-source-node'');
          destinationNodeID = template_string (getAttribute edge ''data-destination-node'');
          st2 = st1\<lparr>elements :=
                  map (\<lambda>el. if contains el ''node'' \<and>
                                 (getAttribute el ''data-id'' = Some sourceNodeID \<or>
                                  getAttribute el ''data-id'' = Some destinationNodeID)
                              then classList_add [''highlighted''] el else el)
                      (elements st1)\<rparr>
      in insertBefore (uid edge) firstNode st2)"

definition activateSelection :: "element \<Rightarrow> 'm workflow \<Rightarrow> 'm workflow" where
  "activateSelection el st =
     (let st1 = deselectEverything st;
          st2 = st1\<lparr>workflowClass := workflowClass st1
                         @ (if ''has-selection'' \<in> set (workflowClass st1) then []
                            else [''has-selection''])\<rparr>;
          nodeID = template_string (getAttribute el ''data-id'');
          firstNode = map_option uid (find (\<lambda>n. contains n ''node'') (elements st2));
          edges = filter (\<lambda>n. contains n ''edge'' \<and>
                               (getAttribute n ''data-source-node'' = Some nodeID \<or>
                                getAttribute n ''data-destination-node'' = Some nodeID))
                         (elements st2);
          st3 = fold (highlightAdjacent firstNode) edges st2;
          st4 = update_element (Some (uid el)) (classList_add [''selected'']) st3
      in emit ''selectionChange'' (Element (uid el)) st4)"

definition clearCanvas :: "'m workflow \<Rightarrow> 'm workflow" where
  "clearCanvas st = st\<lparr>elements := [], labels := [], workflowClass := [''workflow'']\<rparr>"

text \<open>
  \<open>renderModel\<close>. The listeners that \<open>addEventListeners\<close> attaches to the document are
  not part of the state. An identifier is restored when it is neither \<open>null\<close> nor empty.
\<close>

definition renderModel :: "'m collaborators \<Rightarrow> 'm \<Rightarrow> 'm workflow \<Rightarrow> 'm outcome" where
  "renderModel collab mdl st =
     (let st0 = st\<lparr>model := mdl\<rparr>;
          oldTransform = matrix st0;
          selectedStuff = find (\<lambda>el. contains el ''selected'') (elements st0);
          selectedItemConnectionID =
            (case selectedStuff of None \<Rightarrow> None
             | Some el \<Rightarrow> getAttribute el ''data-connection-id'');
          st1 = clearCanvas st0;
          st2 = st1\<lparr>matrix := identity_matrix\<rparr>;
          st3 = st2\<lparr>elements := render collab mdl, labels := renderLabels collab mdl\<rparr>;
          st4 = st3\<lparr>matrix := oldTransform\<rparr>
      in case (if arrangeNecessary collab mdl then Inr st4
               else scaleWorkflow (Some (scale st4)) None st4) of
           Inl err \<Rightarrow> Inl err
         | Inr st5 \<Rightarrow>
             let st6 = (case selectedItemConnectionID of
                          None \<Rightarrow> st5
                        | Some ident \<Rightarrow>
                            if ident = [] then st5
                            else (case find (\<lambda>el. getAttribute el ''data-connection-id'' = Some ident)
                                         (elements st5) of
                                    None \<Rightarrow> st5
                                  | Some newSelection \<Rightarrow> activateSelection newSelection st5));
                 st7 = invokePlugins ''afterRender'' st6
             in Inr (st7\<lparr>modelListeners := modelListeners st7
                            @ [''input.create'', ''output.create'', ''connection.create'']\<rparr>))"

text \<open>
  The body of the \<open>forEach\<close> of \<open>deleteSelection\<close>. In the branch of an edge the code also
  looks up the two ports and their parent nodes; their values are not used and the
  lookups are left out. Giving the focus to the root element changes nothing here.
\<close>

definition deleteElement :: "'m collaborators \<Rightarrow> element \<Rightarrow> 'm workflow \<Rightarrow> 'm outcome" where
  "deleteElement collab el st =
     (if contains el ''step''
      then renderModel collab
             (removeStep collab (getAttribute el ''data-connection-id'') (model st)) st
      else if contains el ''edge''
      then let sourcePortID = getAttribute el ''data-source-connection'';
               destinationPortID = getAttribute el ''data-destination-connection''
           in renderModel collab (disconnect collab sourcePortID destinationPortID (model st)) st
      else if contains el ''input''
      then renderModel collab
             (removeInput collab (getAttribute el ''data-connection-id'') (model st)) st
      else if contains el ''output''
      then renderModel collab
             (removeOutput collab (getAttribute el ''data-connection-id'') (model st)) st
      else Inr st)"

fun deleteElements :: "'m collaborators \<Rightarrow> element list \<Rightarrow> 'm workflow \<Rightarrow> 'm outcome" where
  "deleteElements collab [] st = Inr st"
| "deleteElements collab (el # els) st =
     (case deleteElement collab el st of
        Inl err \<Rightarrow> Inl err
      | Inr st1 \<Rightarrow> deleteElements collab els st1)"

definition deleteSelection :: "'m collaborators \<Rightarrow> 'm workflow \<Rightarrow> 'm outcome" where
  "deleteSelection collab st =
     (let selection = filter (\<lambda>el. contains el ''selected'') (elements st)
      in if length selection = 0 then Inr st
         else let changeEventData = Change ''deletion'' (Some (map uid selection));
                  st1 = emit ''beforeChange'' changeEventData st
              in case deleteElements collab selection st1 of
                   Inl err \<Rightarrow> Inl err
                 | Inr st2 \<Rightarrow>
                     Inr (emit ''afterChange'' changeEventData
                            (emit ''selectionChange'' Null st2)))"


section \<open>Example states\<close>

text \<open>
  A root element of 800 by 600 pixels whose corner is at \<open>(20, 10)\<close> on the screen, and
  the state of a new \<open>Workflow\<close> on it, with the initial values of the fields, no plugin
  and an empty canvas.
\<close>

definition example_rect :: rect where
  "example_rect = \<lparr>rect_left = 20, rect_top = 10, rect_right = 820, rect_bottom = 610,
                    rect_width = 800, rect_height = 600\<rparr>"

definition example_workflow :: "unit workflow" where
  "example_workflow =
     \<lparr>scale = 1, isDragging = False, plugins = [], dragBoundary = 50,
      dragBoundaryTranslation = 5, dragBoundaryInterval = dragBoundaryInterval_default,
      workflowBoundingClientRect = example_rect, model = (), matrix = identity_matrix,
      labels = [], elements = [], workflowClass = [''workflow''],
      svgRootCTM = identity_matrix\<lparr>mat_e := 20, mat_f := 10\<rparr>,
      svgRootRect = example_rect, timers = [], lastTimer = 0,
      emitted = [], pluginCalls = [], modelListeners = []\<rparr>"

text \<open>A root element that is not displayed: all of its rectangle is zero.\<close>

definition hidden_rect :: rect where
  "hidden_rect = \<lparr>rect_left = 0, rect_top = 0, rect_right = 0, rect_bottom = 0,
                   rect_width = 0, rect_height = 0\<rparr>"

text \<open>A viewport 1000 pixels wide and 50 high, and one 100 pixels wide.\<close>

definition flat_rect :: rect where
  "flat_rect = \<lparr>rect_left = 0, rect_top = 0, rect_right = 1000, rect_bottom = 50,
                 rect_width = 1000, rect_height = 50\<rparr>"

definition narrow_rect :: rect where
  "narrow_rect = \<lparr>rect_left = 0, rect_top = 0, rect_right = 100, rect_bottom = 600,
                   rect_width = 100, rect_height = 600\<rparr>"

text \<open>
  A drag that has scrolled at the right edge: timer 1 runs, 15 pixels are accumulated on
  the x axis and port 7 is highlighted.
\<close>

definition example_dragging :: "unit workflow" where
  "example_dragging =
     example_workflow
       \<lparr>isDragging := True,
        dragBoundaryInterval := \<lparr>dbi_x = True, dbi_y = False, interval = Some 1,
                                  xOffset = 15, yOffset = 0, highlightedPort = Some 7\<rparr>,
        timers := [1], lastTimer := 1\<rparr>"

text \<open>A canvas with two step nodes and the edge between them, the edge selected.\<close>

definition example_edge :: element where
  "example_edge =
     \<lparr>uid = 3, depth = 0, classes = [''edge'', ''selected''],
      attrs = [(''data-source-connection'', ''first/out''),
               (''data-destination-connection'', ''second/in''),
               (''data-source-node'', ''first''), (''data-destination-node'', ''second'')]\<rparr>"

definition example_selected :: "unit workflow" where
  "example_selected =
     example_workflow
       \<lparr>elements :=
          [example_edge,
           \<lparr>uid = 1, depth = 0, classes = [''node'', ''step''],
            attrs = [(''data-connection-id'', ''first''), (''data-id'', ''first'')]\<rparr>,
           \<lparr>uid = 2, depth = 0, classes = [''node'', ''step''],
            attrs = [(''data-connection-id'', ''second''), (''data-id'', ''second'')]\<rparr>]\<rparr>"

text \<open>Collaborators that leave the model as it is and draw an empty canvas.\<close>

definition example_collaborators :: "unit collaborators" where
  "example_collaborators =
     \<lparr>removeStep = (\<lambda>ident mdl. mdl), removeInput = (\<lambda>ident mdl. mdl),
      removeOutput = (\<lambda>ident mdl. mdl), disconnect = (\<lambda>source destination mdl. mdl),
      render = (\<lambda>mdl. []), renderLabels = (\<lambda>mdl. []), arrangeNecessary = (\<lambda>mdl. False)\<rparr>"

text \<open>Two input ports, each inside a step node.\<close>

definition example_port :: domNode where
  "example_port =
     Node \<lparr>uid = 5, depth = 1, classes = [''port'', ''input-port''], attrs = []\<rparr>
          (Some (Node \<lparr>uid = 4, depth = 0, classes = [''node'', ''step''], attrs = []\<rparr> None))"

definition other_port :: domNode where
  "other_port =
     Node \<lparr>uid = 8, depth = 1, classes = [''port'', ''input-port''], attrs = []\<rparr>
          (Some (Node \<lparr>uid = 6, depth = 0, classes = [''node'', ''step''], attrs = []\<rparr> None))"

text \<open>Two step nodes with a port in each, in document order.\<close>

definition example_canvas :: "unit workflow" where
  "example_canvas =
     example_workflow
       \<lparr>elements :=
          [\<lparr>uid = 4, depth = 0, classes = [''node'', ''step''], attrs = []\<rparr>,
           \<lparr>uid = 5, depth = 1, classes = [''port'', ''input-port''], attrs = []\<rparr>,
           \<lparr>uid = 6, depth = 0, classes = [''node'', ''step''], attrs = []\<rparr>,
           \<lparr>uid = 8, depth = 1, classes = [''port'', ''input-port''], attrs = []\<rparr>]\<rparr>"


text \<open>A plugin that defines \<open>afterRender\<close> only.\<close>

definition render_only_plugin :: plugin where
  "render_only_plugin =
     \<lparr>registerWorkflowModel = False, registerOnBeforeChange = False,
      registerOnAfterChange = False, afterRender = True\<rparr>"


section \<open>Scaling requests\<close>



lemma scaleWorkflow_returns:
  "determinant (getScreenCTM st) \<noteq> 0 \<Longrightarrow> \<exists>st'. scaleWorkflow c ev st = Inr st'"
  by (simp add: scaleWorkflow_def transformScreenCTMtoCanvas_def matrix_inverse_def
      getScreenCTM_def Let_def)

lemma scaleWorkflow_thrown_singular:
  "scaleWorkflow c ev st = Inl t \<Longrightarrow> determinant (getScreenCTM st) = 0"
  using scaleWorkflow_returns [of st c ev] by auto


lemma scaleWorkflow_frame:
  "scaleWorkflow c ev st = Inr st' \<Longrightarrow>
   emitted st' = emitted st \<and> elements st' = elements st \<and> plugins st' = plugins st"
  by (auto simp: scaleWorkflow_def Let_def split: sum.splits)

lemma example_workflow_invertible:
  "determinant (getScreenCTM example_workflow) \<noteq> 0"
  by (simp add: example_workflow_def getScreenCTM_def matrix_multiply_def determinant_def
      identity_matrix_def)

text \<open>
  Claim C1, as the code has it. The bounds of the scale are checked by the \<open>mousewheel\<close>
  listener, not by \<open>scaleWorkflow\<close>: a wheel event whose resulting factor
  \<open>scale + deltaY / 500\<close> is at most \<open>minScale\<close> or at least \<open>maxScale\<close>, and any wheel
  event during a drag, returns without an error and leaves the whole state as it was.
\<close>

theorem onMousewheel_rejects:
  "isDragging st \<or> scale st + deltaY / 500 \<le> minScale \<or> maxScale \<le> scale st + deltaY / 500
   \<Longrightarrow> onMousewheel deltaY ev st = Inr st"
  by (auto simp: onMousewheel_def Let_def)

theorem onMousewheel_rejects_witness:
  "maxScale < scale example_workflow + 600 / 500 \<and>
   onMousewheel 600 (10, 20) example_workflow = Inr example_workflow"
proof -
  have big: "maxScale < scale example_workflow + 600 / 500"
    by (simp add: maxScale_def example_workflow_def)
  then have "onMousewheel 600 (10, 20) example_workflow = Inr example_workflow"
    using onMousewheel_rejects [of example_workflow 600 "(10, 20)"] by simp
  with big show ?thesis by simp
qed

text \<open>
  Claim C1 as stated fails for \<open>scaleWorkflow\<close> itself: the factor 5 is above
  \<open>maxScale\<close>, and \<open>scaleWorkflow(5)\<close> on a new workflow sets the scale to 5 and rewrites
  the matrix.
\<close>

theorem scaleWorkflow_applies_any_factor:
  "maxScale < 5 \<and> scale example_workflow = 1 \<and>
   scaleWorkflow (Some 5) None example_workflow
     = Inr (example_workflow
              \<lparr>scale := 5,
               matrix := \<lparr>mat_a = 5, mat_b = 0, mat_c = 0, mat_d = 5, mat_e = 80, mat_f = 40\<rparr>\<rparr>)"
  by (simp add: maxScale_def example_workflow_def scaleWorkflow_def
      transformScreenCTMtoCanvas_def getScreenCTM_def matrix_multiply_def matrix_inverse_def
      determinant_def identity_matrix_def matrixTransform_def Let_def)

section \<open>Fitting the viewport\<close>












text \<open>
  Three viewports in which a divisor or a dividend is zero. On an empty canvas the
  scale factor is 0, its reciprocal is infinite and the scale is left at 1. In a
  viewport 100 pixels wide the horizontal quotient is infinite and the scale is left at
  0. With an empty canvas in such a viewport the quotient is 0/0 and the scale is NaN.
\<close>

lemma fitToViewport_empty_canvas:
  "scale_left (fitToViewport (\<lambda>m. hidden_rect) example_workflow) = Finite 1"
  by (simp add: fitToViewport_def scaleWorkflow_def transformScreenCTMtoCanvas_def
      getScreenCTM_def matrix_multiply_def matrix_inverse_def determinant_def
      identity_matrix_def matrixTransform_def Let_def example_workflow_def example_rect_def
      hidden_rect_def js_div_def js_max_def js_min_def js_less_def js_add_def is_zero_def
      is_infinite_def sign_bit_def signed_zero_def signed_infinity_def real_of_def
      scale_left_def)

lemma fitToViewport_padding_wide:
  "scale_left (fitToViewport (\<lambda>m. example_rect)
                 (example_workflow\<lparr>svgRootRect := narrow_rect\<rparr>)) = Finite 0"
  by (simp add: fitToViewport_def scaleWorkflow_def transformScreenCTMtoCanvas_def
      getScreenCTM_def matrix_multiply_def matrix_inverse_def determinant_def
      identity_matrix_def matrixTransform_def Let_def example_workflow_def example_rect_def
      narrow_rect_def js_div_def js_max_def js_min_def js_less_def js_add_def is_zero_def
      is_infinite_def sign_bit_def signed_zero_def signed_infinity_def real_of_def
      scale_left_def)

lemma fitToViewport_NaN:
  "scale_left (fitToViewport (\<lambda>m. hidden_rect)
                 (example_workflow\<lparr>svgRootRect := narrow_rect\<rparr>)) = NaN"
  by (simp add: fitToViewport_def scaleWorkflow_def transformScreenCTMtoCanvas_def
      getScreenCTM_def matrix_multiply_def matrix_inverse_def determinant_def
      identity_matrix_def matrixTransform_def Let_def example_workflow_def example_rect_def
      narrow_rect_def hidden_rect_def js_div_def js_max_def js_min_def js_less_def js_add_def
      is_zero_def is_infinite_def sign_bit_def signed_zero_def signed_infinity_def real_of_def
      scale_left_def)

section \<open>Screen and canvas coordinates\<close>

lemma matrixTransform_multiply:
  "matrixTransform (matrix_multiply m n) p = matrixTransform m (matrixTransform n p)"
  by (simp add: matrixTransform_def matrix_multiply_def algebra_simps)

lemma determinant_multiply:
  "determinant (matrix_multiply m n) = determinant m * determinant n"
  by (simp add: determinant_def matrix_multiply_def algebra_simps)



lemma matrix_inverse_left:
  assumes "determinant m \<noteq> 0"
  shows "\<exists>mi. matrix_inverse m = Some mi \<and> matrixTransform mi (matrixTransform m p) = p"
proof -
  define dt where "dt = mat_a m * mat_d m - mat_b m * mat_c m"
  define X where "X = mat_a m * fst p + mat_c m * snd p + mat_e m"
  define Y where "Y = mat_b m * fst p + mat_d m * snd p + mat_f m"
  have d: "dt \<noteq> 0"
    using assms by (simp add: determinant_def dt_def)
  have numx: "mat_d m * X - mat_c m * Y + (mat_c m * mat_f m - mat_d m * mat_e m) = dt * fst p"
    unfolding dt_def X_def Y_def by (simp add: algebra_simps)
  have numy: "mat_a m * Y - mat_b m * X + (mat_b m * mat_e m - mat_a m * mat_f m) = dt * snd p"
    unfolding dt_def X_def Y_def by (simp add: algebra_simps)
  have "mat_d m / dt * X + (- mat_c m / dt) * Y
           + (mat_c m * mat_f m - mat_d m * mat_e m) / dt
        = (mat_d m * X - mat_c m * Y + (mat_c m * mat_f m - mat_d m * mat_e m)) / dt"
    by (simp add: add_divide_distrib diff_divide_distrib)
  then have x: "mat_d m / dt * X + (- mat_c m / dt) * Y
           + (mat_c m * mat_f m - mat_d m * mat_e m) / dt = fst p"
    by (simp add: numx d)
  have "(- mat_b m / dt) * X + mat_a m / dt * Y
           + (mat_b m * mat_e m - mat_a m * mat_f m) / dt
        = (mat_a m * Y - mat_b m * X + (mat_b m * mat_e m - mat_a m * mat_f m)) / dt"
    by (simp add: add_divide_distrib diff_divide_distrib)
  then have y: "(- mat_b m / dt) * X + mat_a m / dt * Y
           + (mat_b m * mat_e m - mat_a m * mat_f m) / dt = snd p"
    by (simp add: numy d)
  have "matrix_inverse m = Some \<lparr>mat_a = mat_d m / dt, mat_b = - mat_b m / dt,
          mat_c = - mat_c m / dt, mat_d = mat_a m / dt,
          mat_e = (mat_c m * mat_f m - mat_d m * mat_e m) / dt,
          mat_f = (mat_b m * mat_e m - mat_a m * mat_f m) / dt\<rparr>"
    using d by (simp add: matrix_inverse_def determinant_def dt_def Let_def)
  moreover have "matrixTransform \<lparr>mat_a = mat_d m / dt, mat_b = - mat_b m / dt,
          mat_c = - mat_c m / dt, mat_d = mat_a m / dt,
          mat_e = (mat_c m * mat_f m - mat_d m * mat_e m) / dt,
          mat_f = (mat_b m * mat_e m - mat_a m * mat_f m) / dt\<rparr> (matrixTransform m p) = p"
    using x y by (simp add: matrixTransform_def prod_eq_iff X_def Y_def)
  ultimately show ?thesis by simp
qed

lemma getScreenCTM_determinant:
  "determinant (getScreenCTM st) = determinant (svgRootCTM st) * determinant (matrix st)"
  by (simp add: getScreenCTM_def determinant_multiply)

lemma panScaleState_invertible:
  "panScaleState st \<Longrightarrow> determinant (getScreenCTM st) \<noteq> 0"
  unfolding getScreenCTM_determinant by (simp add: panScaleState_def determinant_def)

lemma toCanvas_toScreen:
  assumes "determinant (getScreenCTM st) \<noteq> 0"
  shows "transformScreenCTMtoCanvas st (fst (toScreen st p)) (snd (toScreen st p)) = Inr p"
  using matrix_inverse_left [OF assms, of p]
  by (auto simp: transformScreenCTMtoCanvas_def toScreen_def)

lemma toCanvas_unique:
  assumes "determinant (getScreenCTM st) \<noteq> 0" and "toScreen st c = q"
  shows "transformScreenCTMtoCanvas st (fst q) (snd q) = Inr c"
  using toCanvas_toScreen [OF assms(1), of c] assms(2) by simp


lemma matrix_inverse_right:
  assumes "matrix_inverse m = Some mi"
  shows "matrixTransform m (matrixTransform mi q) = q"
proof -
  define dt where "dt = mat_a m * mat_d m - mat_b m * mat_c m"
  have d: "dt \<noteq> 0"
    using assms by (auto simp: matrix_inverse_def determinant_def dt_def Let_def split: if_splits)
  have mi: "mi = \<lparr>mat_a = mat_d m / dt, mat_b = - mat_b m / dt,
          mat_c = - mat_c m / dt, mat_d = mat_a m / dt,
          mat_e = (mat_c m * mat_f m - mat_d m * mat_e m) / dt,
          mat_f = (mat_b m * mat_e m - mat_a m * mat_f m) / dt\<rparr>"
    using assms by (auto simp: matrix_inverse_def determinant_def dt_def Let_def split: if_splits)
  define E where "E = mat_c m * mat_f m - mat_d m * mat_e m"
  define F where "F = mat_b m * mat_e m - mat_a m * mat_f m"
  have numx: "mat_a m * (mat_d m * fst q - mat_c m * snd q + E)
              + mat_c m * (mat_a m * snd q - mat_b m * fst q + F) = dt * (fst q - mat_e m)"
    unfolding dt_def E_def F_def by (simp add: algebra_simps)
  have numy: "mat_b m * (mat_d m * fst q - mat_c m * snd q + E)
              + mat_d m * (mat_a m * snd q - mat_b m * fst q + F) = dt * (snd q - mat_f m)"
    unfolding dt_def E_def F_def by (simp add: algebra_simps)
  have "mat_a m * (mat_d m / dt * fst q + (- mat_c m / dt) * snd q + E / dt)
        + mat_c m * ((- mat_b m / dt) * fst q + mat_a m / dt * snd q + F / dt)
        = (mat_a m * (mat_d m * fst q - mat_c m * snd q + E)
              + mat_c m * (mat_a m * snd q - mat_b m * fst q + F)) / dt"
    using d by (simp add: field_simps)
  then have x: "mat_a m * (mat_d m / dt * fst q + (- mat_c m / dt) * snd q + E / dt)
        + mat_c m * ((- mat_b m / dt) * fst q + mat_a m / dt * snd q + F / dt) + mat_e m = fst q"
    by (simp add: numx d)
  have "mat_b m * (mat_d m / dt * fst q + (- mat_c m / dt) * snd q + E / dt)
        + mat_d m * ((- mat_b m / dt) * fst q + mat_a m / dt * snd q + F / dt)
        = (mat_b m * (mat_d m * fst q - mat_c m * snd q + E)
              + mat_d m * (mat_a m * snd q - mat_b m * fst q + F)) / dt"
    using d by (simp add: field_simps)
  then have y: "mat_b m * (mat_d m / dt * fst q + (- mat_c m / dt) * snd q + E / dt)
        + mat_d m * ((- mat_b m / dt) * fst q + mat_a m / dt * snd q + F / dt) + mat_f m = snd q"
    by (simp add: numy d)
  show ?thesis
    using x y by (simp add: mi matrixTransform_def prod_eq_iff E_def F_def)
qed

lemma toScreen_toCanvas:
  assumes "transformScreenCTMtoCanvas st x y = Inr c"
  shows "toScreen st c = (x, y)"
  using assms matrix_inverse_right
  by (auto simp: transformScreenCTMtoCanvas_def toScreen_def split: option.splits)


lemma scaleWorkflow_pivot:
  assumes ps: "panScaleState st" and k: "k \<noteq> 0"
  shows "\<exists>st'. scaleWorkflow (Some k) (Some pivot) st = Inr st' \<and> panScaleState st' \<and>
           transformScreenCTMtoCanvas st' (fst pivot) (snd pivot)
             = transformScreenCTMtoCanvas st (fst pivot) (snd pivot)"
proof -
  define st1 where "st1 = st\<lparr>scale := k\<rparr>"
  have ctm1: "getScreenCTM st1 = getScreenCTM st"
    by (simp add: st1_def getScreenCTM_def)
  have m1: "matrix st1 = matrix st"
    by (simp add: st1_def)
  have inv: "determinant (getScreenCTM st) \<noteq> 0"
    using ps by (rule panScaleState_invertible)
  obtain mi where "matrix_inverse (getScreenCTM st) = Some mi"
    using matrix_inverse_left [OF inv, of pivot] by blast
  then obtain c where c: "transformScreenCTMtoCanvas st (fst pivot) (snd pivot) = Inr c"
    by (simp add: transformScreenCTMtoCanvas_def)
  have c1: "transformScreenCTMtoCanvas st1 (fst pivot) (snd pivot) = Inr c"
    using c ctm1 by (simp add: transformScreenCTMtoCanvas_def)
  define m where "m = matrix st"
  define m' where "m' = m\<lparr>mat_a := k, mat_d := k,
      mat_e := mat_e m + mat_a m * fst c - k * fst c,
      mat_f := mat_f m + mat_a m * snd c - k * snd c\<rparr>"
  define st' where "st' = st1\<lparr>matrix := m',
      labels := map (\<lambda>l. l\<lparr>label_a := js_add (Finite 1) (js_div (Finite (1 - k)) (Finite (k * 2))),
                               label_d := js_add (Finite 1) (js_div (Finite (1 - k)) (Finite (k * 2)))\<rparr>)
                    (labels st1)\<rparr>"
  have run: "scaleWorkflow (Some k) (Some pivot) st = Inr st'"
    using c1 m1 by (simp add: scaleWorkflow_def Let_def st1_def [symmetric] st'_def m'_def m_def)
  have ps': "panScaleState st'"
    using ps k by (simp add: panScaleState_def st'_def st1_def m'_def m_def)
  have same: "matrixTransform m' c = matrixTransform m c"
    using ps by (simp add: matrixTransform_def m'_def m_def panScaleState_def algebra_simps)
  have "toScreen st' c = toScreen st c"
    using same
    by (simp add: toScreen_def getScreenCTM_def matrixTransform_multiply st'_def st1_def m_def)
  also have "\<dots> = pivot"
    using toScreen_toCanvas [OF c] by simp
  finally have "transformScreenCTMtoCanvas st' (fst pivot) (snd pivot) = Inr c"
    using toCanvas_unique [OF panScaleState_invertible [OF ps']] by blast
  with run ps' c show ?thesis by simp
qed

lemma example_workflow_panScale:
  "panScaleState example_workflow"
  by (simp add: panScaleState_def example_workflow_def identity_matrix_def determinant_def)

text \<open>
  Claim C7. In every state whose screen transformation can be inverted,
  \<open>transformScreenCTMtoCanvas\<close> takes the screen position of a canvas point back to that
  point (exactly, over the reals). In every pan and scale state, \<open>scaleWorkflow\<close> with a
  factor other than zero around a pivot returns a pan and scale state in which the pivot
  has the canvas coordinates it had before.
\<close>

theorem toCanvas_inverse_and_pivot:
  "(determinant (getScreenCTM st) \<noteq> 0 \<longrightarrow>
      transformScreenCTMtoCanvas st (fst (toScreen st p)) (snd (toScreen st p)) = Inr p) \<and>
   (panScaleState st \<and> k \<noteq> 0 \<longrightarrow>
      (\<exists>st'. scaleWorkflow (Some k) (Some pivot) st = Inr st' \<and> panScaleState st' \<and>
             transformScreenCTMtoCanvas st' (fst pivot) (snd pivot)
               = transformScreenCTMtoCanvas st (fst pivot) (snd pivot)))"
  using toCanvas_toScreen [of st p] scaleWorkflow_pivot [of st k pivot] by blast

theorem toCanvas_inverse_and_pivot_witness:
  "panScaleState example_workflow \<and> scale example_workflow = 1 \<and>
   transformScreenCTMtoCanvas example_workflow (fst (toScreen example_workflow (3, 4)))
       (snd (toScreen example_workflow (3, 4))) = Inr (3, 4) \<and>
   transformScreenCTMtoCanvas example_workflow 100 100 = Inr (80, 90) \<and>
   (\<exists>st'. scaleWorkflow (Some (1 / 2)) (Some (100, 100)) example_workflow = Inr st' \<and>
          transformScreenCTMtoCanvas st' 100 100 = Inr (80, 90))"
proof -
  have before: "transformScreenCTMtoCanvas example_workflow 100 100 = Inr (80, 90)"
    by (simp add: transformScreenCTMtoCanvas_def example_workflow_def getScreenCTM_def
        matrix_multiply_def matrix_inverse_def determinant_def identity_matrix_def
        matrixTransform_def Let_def)
  have one: "scale example_workflow = 1"
    by (simp add: example_workflow_def)
  have half: "(1 / 2 :: real) \<noteq> 0" by simp
  show ?thesis
    using toCanvas_inverse_and_pivot [of example_workflow "(3, 4)" "1 / 2" "(100, 100)"]
      example_workflow_panScale example_workflow_invertible before one half
    by auto
qed


section \<open>Directions of a connection path\<close>

lemma right_is_midpoint_iff:
  "(x1 + abs (x1 - x2) / 2 = (x1 + x2) / 2 \<and> x2 - abs (x1 - x2) / 2 = (x1 + x2) / 2)
     \<longleftrightarrow> x1 \<le> (x2::real)"
  by (auto simp: abs_if field_simps)

text \<open>
  Claim C5, as the code has it. With the direction \<open>"right"\<close> the control points are at
  \<open>x1 + |x1 - x2| / 2\<close> and \<open>x2 - |x1 - x2| / 2\<close>, with \<open>"left"\<close> at
  \<open>x1 - |x1 - x2| / 2\<close> and \<open>x2 + |x1 - x2| / 2\<close>, each with the \<open>y\<close> of its anchor. A
  direction that is left out takes the default \<open>"right"\<close>: the control points are
  those of \<open>"right"\<close>, which are at the midpoint \<open>(x1 + x2) / 2\<close> exactly when
  \<open>x1 \<le> x2\<close>. With the direction given as \<open>null\<close> or as the empty string both
  control points are at the midpoint.
\<close>

theorem makeConnectionPath_directions:
  "makeConnectionPath x1 y1 x2 y2 (Str ''right'')
     = Some \<lparr>start = (x1, y1), control1 = (x1 + abs (x1 - x2) / 2, y1),
              control2 = (x2 - abs (x1 - x2) / 2, y2), finish = (x2, y2)\<rparr> \<and>
   makeConnectionPath x1 y1 x2 y2 (Str ''left'')
     = Some \<lparr>start = (x1, y1), control1 = (x1 - abs (x1 - x2) / 2, y1),
              control2 = (x2 + abs (x1 - x2) / 2, y2), finish = (x2, y2)\<rparr> \<and>
   makeConnectionPath x1 y1 x2 y2 Omitted
     = Some \<lparr>start = (x1, y1), control1 = (x1 + abs (x1 - x2) / 2, y1),
              control2 = (x2 - abs (x1 - x2) / 2, y2), finish = (x2, y2)\<rparr> \<and>
   (makeConnectionPath x1 y1 x2 y2 Omitted
      = Some \<lparr>start = (x1, y1), control1 = ((x1 + x2) / 2, y1),
               control2 = ((x1 + x2) / 2, y2), finish = (x2, y2)\<rparr>
    \<longleftrightarrow> x1 \<le> x2) \<and>
   makeConnectionPath x1 y1 x2 y2 NullValue
     = Some \<lparr>start = (x1, y1), control1 = ((x1 + x2) / 2, y1),
              control2 = ((x1 + x2) / 2, y2), finish = (x2, y2)\<rparr> \<and>
   makeConnectionPath x1 y1 x2 y2 (Str [])
     = Some \<lparr>start = (x1, y1), control1 = ((x1 + x2) / 2, y1),
              control2 = ((x1 + x2) / 2, y2), finish = (x2, y2)\<rparr>"
  using right_is_midpoint_iff [of x1 x2]
  by (simp add: makeConnectionPath_def falsy_def Let_def)

theorem makeConnectionPath_directions_witness:
  "makeConnectionPath 10 0 0 4 (Str ''right'')
     = Some \<lparr>start = (10, 0), control1 = (15, 0), control2 = (- 5, 4), finish = (0, 4)\<rparr> \<and>
   makeConnectionPath 0 0 10 4 (Str ''left'')
     = Some \<lparr>start = (0, 0), control1 = (- 5, 0), control2 = (15, 4), finish = (10, 4)\<rparr> \<and>
   makeConnectionPath 0 0 10 4 Omitted
     = Some \<lparr>start = (0, 0), control1 = (5, 0), control2 = (5, 4), finish = (10, 4)\<rparr> \<and>
   makeConnectionPath 10 0 0 4 Omitted
     \<noteq> Some \<lparr>start = (10, 0), control1 = (5, 0), control2 = (5, 4), finish = (0, 4)\<rparr> \<and>
   makeConnectionPath 10 0 0 4 NullValue
     = Some \<lparr>start = (10, 0), control1 = (5, 0), control2 = (5, 4), finish = (0, 4)\<rparr>"
  using makeConnectionPath_directions [of 0 0 10 4] makeConnectionPath_directions [of 10 0 0 4]
  by simp

text \<open>
  Claim C5 as stated fails when the direction is left out: from \<open>(10, 0)\<close> to \<open>(0, 0)\<close>
  the control points are at 15 and -5, not at the midpoint 5.
\<close>

theorem makeConnectionPath_omitted_not_midpoint:
  "makeConnectionPath 10 0 0 0 Omitted
     = Some \<lparr>start = (10, 0), control1 = (15, 0), control2 = (- 5, 0), finish = (0, 0)\<rparr> \<and>
   (15::real) \<noteq> (10 + 0) / 2 \<and> (- 5::real) \<noteq> (10 + 0) / 2"
  by (simp add: makeConnectionPath_def falsy_def Let_def)

section \<open>The loop that resizes the drag boundary\<close>

lemma resizeDragBoundary_never_returns:
  assumes "resizeDragBoundary r b = Some y"
  shows "rect_left r < rect_right r \<or> b < 0"
proof (rule resizeDragBoundary.raw_induct
    [where P = "\<lambda>r b y. rect_left r < rect_right r \<or> b < 0", OF _ assms])
  fix resize :: "rect \<Rightarrow> real \<Rightarrow> real option" and r :: rect and b y :: real
  assume IH: "\<And>r b y. resize r b = Some y \<Longrightarrow> rect_left r < rect_right r \<or> b < 0"
    and eq: "(if rect_right r - b \<le> rect_left r + b \<or> rect_right r \<le> rect_left r + b * 4
              then resize r (b / 2) else Some b) = Some y"
  show "rect_left r < rect_right r \<or> b < 0"
  proof (rule ccontr)
    assume "\<not> (rect_left r < rect_right r \<or> b < 0)"
    then have h: "rect_right r \<le> rect_left r" "0 \<le> b" by auto
    then have "rect_right r - b \<le> rect_left r + b" by simp
    with eq have "resize r (b / 2) = Some y" by simp
    then have "rect_left r < rect_right r \<or> b / 2 < 0" by (rule IH)
    with h show False by simp
  qed
qed

lemma resizeDragBoundary_zero_width:
  "rect_right r \<le> rect_left r \<Longrightarrow> 0 \<le> b \<Longrightarrow> resizeDragBoundary r b = None"
  using resizeDragBoundary_never_returns [of r b] by (cases "resizeDragBoundary r b") auto

lemma resizeDragBoundary_steps:
  assumes w: "rect_left r < rect_right r"
    and n: "4 * b < 2 ^ n * (rect_right r - rect_left r)"
  shows "\<exists>k. resizeDragBoundary r b = Some (b / 2 ^ k) \<and>
             rect_left r + b / 2 ^ k < rect_right r - b / 2 ^ k \<and>
             rect_left r + (b / 2 ^ k) * 4 < rect_right r"
  using n
proof (induction n arbitrary: b)
  case 0
  then have "\<not> (rect_right r - b \<le> rect_left r + b \<or> rect_right r \<le> rect_left r + (b * 4))"
    using w by auto
  then have "resizeDragBoundary r b = Some (b / 2 ^ 0) \<and>
             rect_left r + b / 2 ^ 0 < rect_right r - b / 2 ^ 0 \<and>
             rect_left r + (b / 2 ^ 0) * 4 < rect_right r"
    by (subst resizeDragBoundary.simps) auto
  then show ?case by blast
next
  case (Suc n)
  show ?case
  proof (cases "rect_right r - b \<le> rect_left r + b \<or> rect_right r \<le> rect_left r + (b * 4)")
    case False
    then have "resizeDragBoundary r b = Some (b / 2 ^ 0) \<and>
             rect_left r + b / 2 ^ 0 < rect_right r - b / 2 ^ 0 \<and>
             rect_left r + (b / 2 ^ 0) * 4 < rect_right r"
      by (subst resizeDragBoundary.simps) auto
    then show ?thesis by blast
  next
    case True
    have "4 * (b / 2) < 2 ^ n * (rect_right r - rect_left r)"
      using Suc.prems by (simp add: field_simps)
    from Suc.IH [OF this] obtain k where
      k: "resizeDragBoundary r (b / 2) = Some (b / 2 / 2 ^ k) \<and>
          rect_left r + b / 2 / 2 ^ k < rect_right r - b / 2 / 2 ^ k \<and>
          rect_left r + (b / 2 / 2 ^ k) * 4 < rect_right r"
      by blast
    have e: "b / 2 / 2 ^ k = b / 2 ^ Suc k" by simp
    have "resizeDragBoundary r b = resizeDragBoundary r (b / 2)"
      using True by (subst resizeDragBoundary.simps) simp
    with k show ?thesis unfolding e by metis
  qed
qed

lemma resizeDragBoundary_terminates:
  assumes w: "rect_left r < rect_right r"
  shows "\<exists>k. resizeDragBoundary r b = Some (b / 2 ^ k) \<and>
             rect_left r + b / 2 ^ k < rect_right r - b / 2 ^ k \<and>
             rect_left r + (b / 2 ^ k) * 4 < rect_right r"
proof -
  obtain n where "4 * b / (rect_right r - rect_left r) < 2 ^ n"
    using real_arch_pow [of 2 "4 * b / (rect_right r - rect_left r)"] by auto
  then have "4 * b < 2 ^ n * (rect_right r - rect_left r)"
    using w by (simp add: field_simps)
  then show ?thesis by (rule resizeDragBoundary_steps [OF w])
qed

lemma setDragBoundaryIntervalIfNecessary_resized:
  assumes "resizeDragBoundary (workflowBoundingClientRect st) (dragBoundary st) = Some b"
  shows "\<exists>st'. setDragBoundaryIntervalIfNecessary boundary ghostIO st = Some st' \<and>
           dragBoundary st' = b \<and>
           workflowBoundingClientRect st' = workflowBoundingClientRect st"
  using assms
  by (simp add: setDragBoundaryIntervalIfNecessary_def Let_def setInterval_def clearInterval_def
      split: option.splits)

lemma setDragBoundaryIntervalIfNecessary_hangs:
  "resizeDragBoundary (workflowBoundingClientRect st) (dragBoundary st) = None \<Longrightarrow>
   setDragBoundaryIntervalIfNecessary boundary ghostIO st = None"
  by (simp add: setDragBoundaryIntervalIfNecessary_def)

text \<open>
  Claim C6, as the code has it. For a viewport rectangle of positive width the loop at
  the start of \<open>setDragBoundaryIntervalIfNecessary\<close> ends after finitely many halvings
  of \<open>dragBoundary\<close>, and the boundary it leaves keeps the left and the right zone apart
  and on less than half of the width: \<open>left + b < right - b\<close> and \<open>left + 4 b < right\<close>.
  The loop does not look at the top and the bottom of the rectangle.
\<close>

theorem setDragBoundaryIntervalIfNecessary_terminates:
  assumes "rect_left (workflowBoundingClientRect st) < rect_right (workflowBoundingClientRect st)"
  shows "\<exists>st' k. setDragBoundaryIntervalIfNecessary boundary ghostIO st = Some st' \<and>
           dragBoundary st' = dragBoundary st / 2 ^ k \<and>
           rect_left (workflowBoundingClientRect st) + dragBoundary st'
             < rect_right (workflowBoundingClientRect st) - dragBoundary st' \<and>
           rect_left (workflowBoundingClientRect st) + dragBoundary st' * 4
             < rect_right (workflowBoundingClientRect st)"
proof -
  obtain k where k: "resizeDragBoundary (workflowBoundingClientRect st) (dragBoundary st)
        = Some (dragBoundary st / 2 ^ k)"
    and apart: "rect_left (workflowBoundingClientRect st) + dragBoundary st / 2 ^ k
        < rect_right (workflowBoundingClientRect st) - dragBoundary st / 2 ^ k"
    and half: "rect_left (workflowBoundingClientRect st) + (dragBoundary st / 2 ^ k) * 4
        < rect_right (workflowBoundingClientRect st)"
    using resizeDragBoundary_terminates [OF assms, of "dragBoundary st"] by blast
  obtain st' where "setDragBoundaryIntervalIfNecessary boundary ghostIO st = Some st'"
    and "dragBoundary st' = dragBoundary st / 2 ^ k"
    using setDragBoundaryIntervalIfNecessary_resized [OF k, of boundary ghostIO] by blast
  with apart half show ?thesis by auto
qed

theorem setDragBoundaryIntervalIfNecessary_terminates_witness:
  "rect_left narrow_rect < rect_right narrow_rect \<and>
   dragBoundary (example_workflow\<lparr>workflowBoundingClientRect := narrow_rect\<rparr>) = 50 \<and>
   resizeDragBoundary narrow_rect 50 = Some (25 / 2) \<and>
   (\<exists>st' k. setDragBoundaryIntervalIfNecessary (1, 0) None
               (example_workflow\<lparr>workflowBoundingClientRect := narrow_rect\<rparr>) = Some st' \<and>
            dragBoundary st' = 50 / 2 ^ k \<and>
            rect_left narrow_rect + dragBoundary st' < rect_right narrow_rect - dragBoundary st')"
proof -
  have w: "rect_left narrow_rect < rect_right narrow_rect"
    by (simp add: narrow_rect_def)
  have b: "dragBoundary (example_workflow\<lparr>workflowBoundingClientRect := narrow_rect\<rparr>) = 50"
    by (simp add: example_workflow_def)
  have r: "resizeDragBoundary narrow_rect 50 = Some (25 / 2)"
    by (simp add: resizeDragBoundary.simps narrow_rect_def)
  have "\<exists>st' k. setDragBoundaryIntervalIfNecessary (1, 0) None
               (example_workflow\<lparr>workflowBoundingClientRect := narrow_rect\<rparr>) = Some st' \<and>
            dragBoundary st' = 50 / 2 ^ k \<and>
            rect_left narrow_rect + dragBoundary st' < rect_right narrow_rect - dragBoundary st' \<and>
            rect_left narrow_rect + dragBoundary st' * 4 < rect_right narrow_rect"
    using w b
      setDragBoundaryIntervalIfNecessary_terminates
        [of "example_workflow\<lparr>workflowBoundingClientRect := narrow_rect\<rparr>" "(1, 0)" None]
    by simp
  with w b r show ?thesis by blast
qed

text \<open>
  Claim C6 as stated fails twice. On a rectangle of zero width the loop never ends, so
  \<open>setDragBoundaryIntervalIfNecessary\<close> does not return. On a viewport 1000 pixels wide
  and 50 high the loop leaves the boundary at 50, and the top and the bottom zone cover
  the whole height: no point is in the interior.
\<close>

theorem resizeDragBoundary_counterexample:
  "resizeDragBoundary hidden_rect 50 = None \<and>
   setDragBoundaryIntervalIfNecessary (1, 0) None
     (example_workflow\<lparr>workflowBoundingClientRect := hidden_rect\<rparr>) = None \<and>
   resizeDragBoundary flat_rect 50 = Some 50 \<and>
   rect_bottom flat_rect - 50 \<le> rect_top flat_rect + 50"
proof -
  have hang: "resizeDragBoundary hidden_rect 50 = None"
    by (rule resizeDragBoundary_zero_width) (simp_all add: hidden_rect_def)
  have "resizeDragBoundary
          (workflowBoundingClientRect (example_workflow\<lparr>workflowBoundingClientRect := hidden_rect\<rparr>))
          (dragBoundary (example_workflow\<lparr>workflowBoundingClientRect := hidden_rect\<rparr>)) = None"
    using hang by (simp add: example_workflow_def)
  then have none: "setDragBoundaryIntervalIfNecessary (1, 0) None
     (example_workflow\<lparr>workflowBoundingClientRect := hidden_rect\<rparr>) = None"
    by (rule setDragBoundaryIntervalIfNecessary_hangs)
  have flat: "resizeDragBoundary flat_rect 50 = Some 50"
    by (simp add: resizeDragBoundary.simps flat_rect_def)
  have "rect_bottom flat_rect - 50 \<le> rect_top flat_rect + 50"
    by (simp add: flat_rect_def)
  with hang none flat show ?thesis by simp
qed


section \<open>Leaving the boundary and ending the drag\<close>

lemma getBoundaryZonesXYAxes_interior:
  assumes "inInterior x y st"
  shows "getBoundaryZonesXYAxes x y st =
     ((0, 0),
      if interval (dragBoundaryInterval st) \<noteq> None
      then (clearInterval (interval (dragBoundaryInterval st)) st)
             \<lparr>dragBoundaryInterval := (dragBoundaryInterval st)\<lparr>dbi_x := False, dbi_y := False,
                  interval := None, highlightedPort := None\<rparr>\<rparr>
      else st)"
  using assms
  by (auto simp: getBoundaryZonesXYAxes_def inInterior_def Let_def clearInterval_def
      split: option.splits)

lemma clearInterval_timers:
  "h \<notin> set (timers (clearInterval (Some h) st))"
  by (simp add: clearInterval_def)

lemma clearInterval_dragBoundaryInterval:
  "dragBoundaryInterval (clearInterval h st) = dragBoundaryInterval st"
  by (simp add: clearInterval_def split: option.splits)

lemma reenter_interior:
  assumes "inInterior x y st" and "interval (dragBoundaryInterval st) = Some h"
  shows "fst (getBoundaryZonesXYAxes x y st) = (0, 0) \<and>
         h \<notin> set (timers (snd (getBoundaryZonesXYAxes x y st))) \<and>
         dragBoundaryInterval (snd (getBoundaryZonesXYAxes x y st))
           = dragBoundaryInterval_default
               \<lparr>xOffset := xOffset (dragBoundaryInterval st),
                yOffset := yOffset (dragBoundaryInterval st)\<rparr>"
  using assms
  by (simp add: getBoundaryZonesXYAxes_interior clearInterval_timers
      dragBoundaryInterval_default_def clearInterval_def)

lemma setDragBoundaryIntervalToDefault_resets:
  assumes "intervalConsistent (dragBoundaryInterval st)"
  shows "dragBoundaryInterval (setDragBoundaryIntervalToDefault st) = dragBoundaryInterval_default"
  using assms
  by (auto simp: setDragBoundaryIntervalToDefault_def intervalConsistent_def Let_def
      dragBoundaryInterval_default_def clearInterval_def)

lemma setDragBoundaryIntervalToDefault_timer:
  "interval (dragBoundaryInterval st) = Some h \<Longrightarrow>
   h \<notin> set (timers (setDragBoundaryIntervalToDefault st))"
  by (simp add: setDragBoundaryIntervalToDefault_def Let_def clearInterval_def)

lemma intervalConsistent_default:
  "intervalConsistent dragBoundaryInterval_default"
  by (simp add: intervalConsistent_def dragBoundaryInterval_default_def)

lemma intervalConsistent_getBoundaryZonesXYAxes:
  "intervalConsistent (dragBoundaryInterval st) \<Longrightarrow>
   intervalConsistent (dragBoundaryInterval (snd (getBoundaryZonesXYAxes x y st)))"
  by (auto simp: getBoundaryZonesXYAxes_def intervalConsistent_def Let_def clearInterval_def)

lemma intervalConsistent_setDragBoundaryIntervalIfNecessary:
  "intervalConsistent (dragBoundaryInterval st) \<Longrightarrow>
   setDragBoundaryIntervalIfNecessary boundary ghostIO st = Some st' \<Longrightarrow>
   intervalConsistent (dragBoundaryInterval st')"
  by (auto simp: setDragBoundaryIntervalIfNecessary_def intervalConsistent_def Let_def
      setInterval_def split: option.splits if_splits)

lemma intervalConsistent_setDragBoundaryIntervalToDefault:
  "intervalConsistent (dragBoundaryInterval st) \<Longrightarrow>
   intervalConsistent (dragBoundaryInterval (setDragBoundaryIntervalToDefault st))"
  by (simp add: setDragBoundaryIntervalToDefault_resets intervalConsistent_default)

lemma getBoundaryZonesXYAxes_offsets:
  "xOffset (dragBoundaryInterval (snd (getBoundaryZonesXYAxes x y st)))
     = xOffset (dragBoundaryInterval st) \<and>
   yOffset (dragBoundaryInterval (snd (getBoundaryZonesXYAxes x y st)))
     = yOffset (dragBoundaryInterval st)"
  by (simp add: getBoundaryZonesXYAxes_def Let_def clearInterval_dragBoundaryInterval)

lemma setDragBoundaryIntervalIfNecessary_offsets:
  "setDragBoundaryIntervalIfNecessary boundary ghostIO st = Some st' \<Longrightarrow>
   xOffset (dragBoundaryInterval st') = xOffset (dragBoundaryInterval st) \<and>
   yOffset (dragBoundaryInterval st') = yOffset (dragBoundaryInterval st)"
  by (auto simp: setDragBoundaryIntervalIfNecessary_def Let_def setInterval_def
      split: option.splits if_splits)

text \<open>
  Claim C8. When the cursor is in the interior and a timer is registered,
  \<open>getBoundaryZonesXYAxes\<close> clears the timer and sets the two axis flags, the handle
  and the highlighted port back to their defaults, and leaves \<open>xOffset\<close> and
  \<open>yOffset\<close> as they were; wherever the cursor is, it does not write the offsets.
  \<open>setDragBoundaryIntervalToDefault\<close>, which ends the drag, clears a registered timer
  and leaves every field, the two offsets too, at its default.
\<close>

theorem boundary_state_reset:
  "(inInterior x y st \<and> interval (dragBoundaryInterval st) = Some h \<longrightarrow>
      fst (getBoundaryZonesXYAxes x y st) = (0, 0) \<and>
      h \<notin> set (timers (snd (getBoundaryZonesXYAxes x y st))) \<and>
      dragBoundaryInterval (snd (getBoundaryZonesXYAxes x y st))
        = dragBoundaryInterval_default
            \<lparr>xOffset := xOffset (dragBoundaryInterval st),
             yOffset := yOffset (dragBoundaryInterval st)\<rparr>) \<and>
   xOffset (dragBoundaryInterval (snd (getBoundaryZonesXYAxes x y st)))
     = xOffset (dragBoundaryInterval st) \<and>
   yOffset (dragBoundaryInterval (snd (getBoundaryZonesXYAxes x y st)))
     = yOffset (dragBoundaryInterval st) \<and>
   (intervalConsistent (dragBoundaryInterval st) \<longrightarrow>
      dragBoundaryInterval (setDragBoundaryIntervalToDefault st) = dragBoundaryInterval_default) \<and>
   (interval (dragBoundaryInterval st) = Some h \<longrightarrow>
      h \<notin> set (timers (setDragBoundaryIntervalToDefault st)))"
  using reenter_interior [of x y st h] setDragBoundaryIntervalToDefault_resets [of st]
    setDragBoundaryIntervalToDefault_timer [of st h] getBoundaryZonesXYAxes_offsets [of x y st]
  by blast

theorem boundary_state_reset_witness:
  "inInterior 400 300 example_dragging \<and>
   interval (dragBoundaryInterval example_dragging) = Some 1 \<and>
   intervalConsistent (dragBoundaryInterval example_dragging) \<and>
   xOffset (dragBoundaryInterval example_dragging) = 15 \<and>
   timers (snd (getBoundaryZonesXYAxes 400 300 example_dragging)) = [] \<and>
   dragBoundaryInterval (snd (getBoundaryZonesXYAxes 400 300 example_dragging))
     = \<lparr>dbi_x = False, dbi_y = False, interval = None, xOffset = 15, yOffset = 0,
        highlightedPort = None\<rparr> \<and>
   dragBoundaryInterval (setDragBoundaryIntervalToDefault example_dragging)
     = \<lparr>dbi_x = False, dbi_y = False, interval = None, xOffset = 0, yOffset = 0,
        highlightedPort = None\<rparr>"
proof -
  have i: "inInterior 400 300 example_dragging"
    by (simp add: inInterior_def example_dragging_def example_workflow_def example_rect_def)
  have h: "interval (dragBoundaryInterval example_dragging) = Some 1"
    by (simp add: example_dragging_def)
  have c: "intervalConsistent (dragBoundaryInterval example_dragging)"
    by (simp add: intervalConsistent_def h)
  have o: "xOffset (dragBoundaryInterval example_dragging) = 15"
    "yOffset (dragBoundaryInterval example_dragging) = 0"
    by (simp_all add: example_dragging_def)
  have t: "timers (snd (getBoundaryZonesXYAxes 400 300 example_dragging)) = []"
    using i h
    by (simp add: getBoundaryZonesXYAxes_interior clearInterval_def example_dragging_def)
  show ?thesis
    using boundary_state_reset [of 400 300 example_dragging 1] i h c o t
    by (simp add: dragBoundaryInterval_default_def)
qed

section \<open>The snap target\<close>

lemma setHighlightedPort_empty:
  "setHighlightedPort [] edgeDirection st = Inr (None, st)"
  by (simp add: setHighlightedPort_def)

lemma setHighlightedPort_far:
  "100 \<le> d \<Longrightarrow> setHighlightedPort ((p, d) # rest) edgeDirection st = Inr (None, st)"
  by (simp add: setHighlightedPort_def)

lemma setHighlightedPort_near:
  "d < 100 \<Longrightarrow> findParentNode (Some p) = Inr (Some n) \<Longrightarrow>
   \<exists>st'. setHighlightedPort ((p, d) # rest) edgeDirection st = Inr (Some p, st')"
  by (simp add: setHighlightedPort_def Let_def)

lemma setHighlightedPort_moves_node:
  "\<exists>st'. setHighlightedPort [(example_port, 40), (other_port, 150)] ''right'' example_canvas
           = Inr (Some example_port, st') \<and>
         map uid (elements st') = [6, 8, 4, 5] \<and>
         map classes (elements st')
           = [[''node'', ''step''], [''port'', ''input-port''],
              [''node'', ''step'', ''highlighted'', ''preferred-node'', ''right''],
              [''port'', ''input-port'', ''highlighted'', ''preferred-port'']]"
  by (simp add: setHighlightedPort_def example_port_def other_port_def example_canvas_def
      example_workflow_def contains_def node_uid_def update_element_def appendChild_def
      subtree_def without_subtree_def classList_add_def Let_def)

lemma findParentNode_example_port:
  "findParentNode (Some example_port)
     = Inr (Some (Node \<lparr>uid = 4, depth = 0, classes = [''node'', ''step''], attrs = []\<rparr> None))"
  by (simp add: example_port_def contains_def)

text \<open>
  Claim C9. On the entries of a ranked map, nearest first, \<open>setHighlightedPort\<close>
  returns \<open>undefined\<close> when the first distance is 100 or more, and when the map is
  empty; when the first distance is below 100 and the port lies inside a node, it
  returns that port.
\<close>

theorem setHighlightedPort_threshold:
  "(100 \<le> d \<longrightarrow> setHighlightedPort ((p, d) # rest) edgeDirection st = Inr (None, st)) \<and>
   (d < 100 \<and> findParentNode (Some p) = Inr (Some n) \<longrightarrow>
      (\<exists>st'. setHighlightedPort ((p, d) # rest) edgeDirection st = Inr (Some p, st'))) \<and>
   setHighlightedPort [] edgeDirection st = Inr (None, st)"
  using setHighlightedPort_far [of d p rest edgeDirection st]
    setHighlightedPort_near [of d p n rest edgeDirection st]
    setHighlightedPort_empty [of edgeDirection st]
  by blast

theorem setHighlightedPort_threshold_witness:
  "(\<exists>st'. setHighlightedPort [(example_port, 40), (other_port, 150)] ''right'' example_workflow
            = Inr (Some example_port, st')) \<and>
   setHighlightedPort [(example_port, 100), (other_port, 150)] ''right'' example_workflow
     = Inr (None, example_workflow)"
  using setHighlightedPort_threshold
      [of 40 example_port "[(other_port, 150)]" "''right''" example_workflow
          "Node \<lparr>uid = 4, depth = 0, classes = [''node'', ''step''], attrs = []\<rparr> None"]
    setHighlightedPort_threshold
      [of 100 example_port "[(other_port, 150)]" "''right''" example_workflow]
    findParentNode_example_port
  by simp

section \<open>Events of a position update\<close>

lemma setModelPosition_no_customProps:
  "customProps obj = None \<Longrightarrow> arg \<noteq> Some False \<Longrightarrow>
   setModelPosition obj x y arg st =
     (obj\<lparr>customProps := Some [''sbg:x'' \<mapsto> x, ''sbg:y'' \<mapsto> y]\<rparr>,
      st\<lparr>emitted := emitted st @ [(''beforeChange'', Change ''move'' None)]\<rparr>)"
  by (auto simp: setModelPosition_def emit_def Let_def split: option.splits)

lemma setModelPosition_customProps:
  "customProps obj = Some props \<Longrightarrow> arg \<noteq> Some False \<Longrightarrow>
   setModelPosition obj x y arg st =
     (obj\<lparr>customProps := Some (props(''sbg:x'' \<mapsto> x, ''sbg:y'' \<mapsto> y))\<rparr>,
      st\<lparr>emitted := emitted st @ [(''beforeChange'', Change ''move'' None),
                                    (''afterChange'', Change ''move'' None)]\<rparr>)"
  by (auto simp: setModelPosition_def emit_def Let_def split: option.splits)

text \<open>
  Claim C10. With event emission enabled (the default, or \<open>true\<close> given),
  \<open>setModelPosition\<close> on an object that has \<open>customProps\<close> emits \<open>beforeChange\<close>,
  writes the two coordinates into \<open>customProps\<close> and emits \<open>afterChange\<close>. On an object
  without \<open>customProps\<close> it emits \<open>beforeChange\<close>, gives the object the two coordinates
  as its \<open>customProps\<close> and returns: no \<open>afterChange\<close> follows.
\<close>

theorem setModelPosition_events:
  "(customProps obj = Some props \<and> arg \<noteq> Some False \<longrightarrow>
      setModelPosition obj x y arg st =
        (obj\<lparr>customProps := Some (props(''sbg:x'' \<mapsto> x, ''sbg:y'' \<mapsto> y))\<rparr>,
         st\<lparr>emitted := emitted st @ [(''beforeChange'', Change ''move'' None),
                                       (''afterChange'', Change ''move'' None)]\<rparr>)) \<and>
   (customProps obj = None \<and> arg \<noteq> Some False \<longrightarrow>
      setModelPosition obj x y arg st =
        (obj\<lparr>customProps := Some [''sbg:x'' \<mapsto> x, ''sbg:y'' \<mapsto> y]\<rparr>,
         st\<lparr>emitted := emitted st @ [(''beforeChange'', Change ''move'' None)]\<rparr>))"
  using setModelPosition_customProps [of obj props arg x y st]
    setModelPosition_no_customProps [of obj arg x y st]
  by blast

theorem setModelPosition_events_witness:
  "emitted (snd (setModelPosition \<lparr>customProps = Some Map.empty\<rparr> 3 4 None example_workflow))
     = [(''beforeChange'', Change ''move'' None), (''afterChange'', Change ''move'' None)] \<and>
   emitted (snd (setModelPosition \<lparr>customProps = None\<rparr> 3 4 None example_workflow))
     = [(''beforeChange'', Change ''move'' None)]"
  using setModelPosition_events [of "\<lparr>customProps = Some Map.empty\<rparr>" Map.empty None 3 4 example_workflow]
    setModelPosition_events [of "\<lparr>customProps = None\<rparr>" Map.empty None 3 4 example_workflow]
  by (simp add: example_workflow_def)


section \<open>Attaching and invoking plugins\<close>

lemma hookPlugins_from_calls:
  "list_all complete_plugin ps \<Longrightarrow>
   hookPlugins_from i ps st =
     Inr (st\<lparr>pluginCalls := pluginCalls st @
            concat (map (\<lambda>(j, p). [(j, ''registerWorkflowModel''), (j, ''registerOnBeforeChange''),
                                     (j, ''registerOnAfterChange'')]) (enumerate i ps))\<rparr>)"
proof (induction ps arbitrary: i st)
  case Nil
  then show ?case by simp
next
  case (Cons p ps)
  then show ?case
    by (simp add: hookPlugin_def call_plugin_def complete_plugin_def Let_def)
qed

lemma hookPlugins_from_returns:
  "hookPlugins_from i ps st = Inr st' \<Longrightarrow> list_all complete_plugin ps"
proof (induction ps arbitrary: i st)
  case Nil
  then show ?case by simp
next
  case (Cons p ps)
  then show ?case
    by (auto simp: hookPlugin_def complete_plugin_def Let_def split: sum.splits if_splits)
qed

lemma invokePlugins_from_calls:
  "invokePlugins_from i ps methodName st =
     st\<lparr>pluginCalls := pluginCalls st @
          map (\<lambda>(j, p). (j, methodName))
              (filter (\<lambda>(j, p). is_function p methodName) (enumerate i ps))\<rparr>"
  by (induction ps arbitrary: i st) (simp_all add: call_plugin_def)

text \<open>
  Claim C4, at a plugin that defines \<open>afterRender\<close> only, as the interface \<open>SVGPlugin\<close>
  allows. \<open>invokePlugins\<close> tests each method before it calls it and calls
  \<open>afterRender\<close> on this plugin; \<open>hookPlugins\<close> calls \<open>registerWorkflowModel\<close> without a
  test, and attaching the plugin ends in a \<open>TypeError\<close> before any method was called.
\<close>

theorem hookPlugins_undefined_method:
  "hookPlugins (example_workflow\<lparr>plugins := [render_only_plugin]\<rparr>)
     = Inl (TypeError, example_workflow\<lparr>plugins := [render_only_plugin]\<rparr>) \<and>
   pluginCalls (invokePlugins ''afterRender'' (example_workflow\<lparr>plugins := [render_only_plugin]\<rparr>))
     = [(0, ''afterRender'')]"
  by (simp add: hookPlugins_def hookPlugin_def invokePlugins_def is_function_def
      render_only_plugin_def call_plugin_def example_workflow_def)

section \<open>Events of a deletion\<close>

lemma invokePlugins_from_emitted:
  "emitted (invokePlugins_from i ps methodName st) = emitted st"
  by (induction ps arbitrary: i st) (simp_all add: call_plugin_def)

lemma invokePlugins_emitted:
  "emitted (invokePlugins methodName st) = emitted st"
  by (simp add: invokePlugins_def invokePlugins_from_emitted)

lemma find_filter:
  "filter P xs = x # ys \<Longrightarrow> find P xs = Some x"
  by (induction xs) (auto split: if_splits)


lemma renderModel_thrown:
  assumes "renderModel collab mdl st = Inl t"
  shows "determinant (getScreenCTM st) = 0"
proof -
  from assms obtain c s where s: "scaleWorkflow c None s = Inl t"
    and m: "matrix s = matrix st" "svgRootCTM s = svgRootCTM st"
    by (auto simp: renderModel_def Let_def clearCanvas_def split: if_splits sum.splits)
  have "determinant (getScreenCTM s) = 0"
    using s by (rule scaleWorkflow_thrown_singular)
  with m show ?thesis by (simp add: getScreenCTM_def)
qed

lemma renderModel_emitted:
  assumes "renderModel collab mdl st = Inr st'"
    and "find (\<lambda>el. contains el ''selected'') (elements st) = Some el"
    and "getAttribute el ''data-connection-id'' = None"
  shows "emitted st' = emitted st"
proof (cases "arrangeNecessary collab mdl")
  case True
  with assms show ?thesis
    by (auto simp: renderModel_def Let_def clearCanvas_def invokePlugins_emitted)
next
  case False
  with assms obtain c s s' where s: "scaleWorkflow c None s = Inr s'"
    and e: "emitted s = emitted st"
    and r: "st' = (invokePlugins ''afterRender'' s')\<lparr>modelListeners :=
               modelListeners (invokePlugins ''afterRender'' s')
               @ [''input.create'', ''output.create'', ''connection.create'']\<rparr>"
    by (auto simp: renderModel_def Let_def clearCanvas_def split: sum.splits)
  have "emitted s' = emitted s"
    using scaleWorkflow_frame [OF s] by simp
  with e r show ?thesis
    by (simp add: invokePlugins_emitted)
qed

lemma deleteElement_edge:
  "contains el ''edge'' \<Longrightarrow>
   \<exists>mdl. deleteElement collab el st = renderModel collab mdl st"
  by (auto simp: deleteElement_def Let_def)

lemma deleteSelection_empty:
  "filter (\<lambda>el. contains el ''selected'') (elements st) = [] \<Longrightarrow>
   deleteSelection collab st = Inr st"
  by (simp add: deleteSelection_def)

lemma deleteSelection_edge:
  assumes sel: "filter (\<lambda>el. contains el ''selected'') (elements st) = [el]"
    and edge: "contains el ''edge''"
    and noid: "getAttribute el ''data-connection-id'' = None"
    and inv: "determinant (getScreenCTM st) \<noteq> 0"
  shows "\<exists>st'. deleteSelection collab st = Inr st' \<and>
           emitted st' = emitted st @
             [(''beforeChange'', Change ''deletion'' (Some [uid el])),
              (''selectionChange'', Null),
              (''afterChange'', Change ''deletion'' (Some [uid el]))]"
proof -
  define st1 where "st1 = emit ''beforeChange'' (Change ''deletion'' (Some [uid el])) st"
  have els: "elements st1 = elements st" and ctm: "getScreenCTM st1 = getScreenCTM st"
    by (simp_all add: st1_def emit_def getScreenCTM_def)
  have f: "find (\<lambda>el. contains el ''selected'') (elements st1) = Some el"
    using sel els by (simp add: find_filter)
  obtain mdl where d: "deleteElement collab el st1 = renderModel collab mdl st1"
    using deleteElement_edge [OF edge, of collab st1] by blast
  obtain st2 where r: "renderModel collab mdl st1 = Inr st2"
    using renderModel_thrown [of collab mdl st1] inv ctm
    by (cases "renderModel collab mdl st1") auto
  have e2: "emitted st2 = emitted st1"
    using r f noid by (rule renderModel_emitted)
  have "deleteSelection collab st
        = Inr (emit ''afterChange'' (Change ''deletion'' (Some [uid el]))
                 (emit ''selectionChange'' Null st2))"
    using sel d r by (simp add: deleteSelection_def Let_def st1_def [symmetric])
  then show ?thesis
    using e2 by (simp add: emit_def st1_def)
qed

lemma example_selected_invertible:
  "determinant (getScreenCTM example_selected) \<noteq> 0"
  using example_workflow_invertible by (simp add: example_selected_def getScreenCTM_def)

text \<open>
  Claim C3. With nothing selected \<open>deleteSelection\<close> returns the state as it was, so no
  event is emitted. With one element selected, an edge (which carries no
  \<open>data-connection-id\<close>), in a state whose screen transformation can be inverted, it
  returns, and the events it has added are \<open>beforeChange\<close>, \<open>selectionChange\<close> with
  \<open>null\<close> and \<open>afterChange\<close>, in this order and nothing else.
\<close>

theorem deleteSelection_events:
  "(filter (\<lambda>el. contains el ''selected'') (elements st) = [] \<longrightarrow>
      deleteSelection collab st = Inr st) \<and>
   (filter (\<lambda>el. contains el ''selected'') (elements st) = [el] \<and> contains el ''edge'' \<and>
    getAttribute el ''data-connection-id'' = None \<and> determinant (getScreenCTM st) \<noteq> 0 \<longrightarrow>
      (\<exists>st'. deleteSelection collab st = Inr st' \<and>
             emitted st' = emitted st @
               [(''beforeChange'', Change ''deletion'' (Some [uid el])),
                (''selectionChange'', Null),
                (''afterChange'', Change ''deletion'' (Some [uid el]))]))"
  using deleteSelection_empty [of st collab] deleteSelection_edge [of st el collab]
  by blast

theorem deleteSelection_events_witness:
  "deleteSelection example_collaborators example_workflow = Inr example_workflow \<and>
   filter (\<lambda>el. contains el ''selected'') (elements example_selected) = [example_edge] \<and>
   (\<exists>st'. deleteSelection example_collaborators example_selected = Inr st' \<and>
          emitted st' =
            [(''beforeChange'', Change ''deletion'' (Some [3])),
             (''selectionChange'', Null),
             (''afterChange'', Change ''deletion'' (Some [3]))])"
proof -
  have none: "filter (\<lambda>el. contains el ''selected'') (elements example_workflow) = []"
    by (simp add: example_workflow_def)
  have one: "filter (\<lambda>el. contains el ''selected'') (elements example_selected) = [example_edge]"
    by (simp add: example_selected_def example_workflow_def example_edge_def contains_def)
  have edge: "contains example_edge ''edge''"
    by (simp add: example_edge_def contains_def)
  have noid: "getAttribute example_edge ''data-connection-id'' = None"
    by (simp add: example_edge_def getAttribute_def)
  have u: "uid example_edge = 3" "emitted example_selected = []"
    by (simp_all add: example_edge_def example_selected_def example_workflow_def)
  show ?thesis
    using deleteSelection_events [of example_workflow example_collaborators example_edge]
      deleteSelection_events [of example_selected example_collaborators example_edge]
      none one edge noid u example_selected_invertible
    by simp
qed

end
